theory Spec2Isabelle
  imports Main
begin

section \<open>Python values, strings and messages\<close>

text \<open>
  The values that travel through the per-message metadata dictionary and the
  notification calls.  Python tests them for truth (\<open>if msgdata.get('approved')\<close>),
  so the model keeps the value and its truth value apart.
\<close>

datatype pyval = PNone | PBool bool | PInt int | PStr string

fun truthy :: "pyval \<Rightarrow> bool" where
  "truthy PNone = False"
| "truthy (PBool b) = b"
| "truthy (PInt i) = (i \<noteq> 0)"
| "truthy (PStr s) = (s \<noteq> [])"

text \<open>\<open>d.get(key, failobj)\<close> on a dictionary.\<close>

definition dict_get :: "(string \<rightharpoonup> pyval) \<Rightarrow> string \<Rightarrow> pyval \<Rightarrow> pyval" where
  "dict_get d key failobj = (case d key of None \<Rightarrow> failobj | Some v \<Rightarrow> v)"

text \<open>\<open>str.lower()\<close> on a byte string: the letters A to Z are folded, nothing else.\<close>

definition uppercase :: string where
  "uppercase = ''ABCDEFGHIJKLMNOPQRSTUVWXYZ''"

definition lowercase :: string where
  "lowercase = ''abcdefghijklmnopqrstuvwxyz''"

definition lower_char :: "char \<Rightarrow> char" where
  "lower_char c = (case map_of (zip uppercase lowercase) c of Some d \<Rightarrow> d | None \<Rightarrow> c)"

definition lower :: "string \<Rightarrow> string" where
  "lower s = map lower_char s"

text \<open>
  A message is its header list, in order.  \<open>msg.get(name, failobj)\<close> of the email
  package compares header names without regard to case and returns the value of
  the first header that matches, or \<open>failobj\<close>.
\<close>

record message =
  headers :: "(string \<times> string) list"

fun first_header :: "(string \<times> string) list \<Rightarrow> string \<Rightarrow> string option" where
  "first_header [] name = None"
| "first_header ((k, v) # hs) name =
     (if lower k = lower name then Some v else first_header hs name)"

definition msg_get :: "message \<Rightarrow> string \<Rightarrow> string option" where
  "msg_get msg name = first_header (headers msg) name"

definition msg_get_default :: "message \<Rightarrow> string \<Rightarrow> string \<Rightarrow> string" where
  "msg_get_default msg name failobj =
     (case msg_get msg name of None \<Rightarrow> failobj | Some v \<Rightarrow> v)"

section \<open>Handlers/Hold.py: ackp\<close>

text \<open>
  \<^verbatim>\<open>
  def ackp(msg):
      ack = msg.get('x-ack', '').lower()
      precedence = msg.get('precedence', '').lower()
      if ack <> 'yes' and precedence in ('bulk', 'junk', 'list'):
          return 0
      return 1
  \<close>
\<close>

definition ackp :: "message \<Rightarrow> int" where
  "ackp msg =
     (let ack = lower (msg_get_default msg ''x-ack'' '''');
          precedence = lower (msg_get_default msg ''precedence'' '''')
      in if ack \<noteq> ''yes'' \<and> precedence \<in> set [''bulk'', ''junk'', ''list''] then 0 else 1)"

text \<open>
  The specification's reading of the two headers.  Two strings are equal without
  regard to case when they have the same length and agree position by position up
  to swapping a capital letter with its small letter.
\<close>

definition same_letter :: "char \<Rightarrow> char \<Rightarrow> bool" where
  "same_letter c d =
     (c = d \<or> (c, d) \<in> set (zip uppercase lowercase) \<or> (d, c) \<in> set (zip uppercase lowercase))"

definition caseless_eq :: "string \<Rightarrow> string \<Rightarrow> bool" where
  "caseless_eq s t = list_all2 same_letter s t"

definition x_ack_is_yes :: "message \<Rightarrow> bool" where
  "x_ack_is_yes msg =
     (case msg_get msg ''x-ack'' of None \<Rightarrow> False | Some v \<Rightarrow> caseless_eq v ''yes'')"

definition precedence_is_bulk :: "message \<Rightarrow> bool" where
  "precedence_is_bulk msg =
     (case msg_get msg ''precedence'' of
        None \<Rightarrow> False
      | Some p \<Rightarrow> caseless_eq p ''bulk'' \<or> caseless_eq p ''junk'' \<or> caseless_eq p ''list'')"

text \<open>The same message with the values of its X-Ack and Precedence headers in lower case.\<close>

definition lower_ack_precedence :: "message \<Rightarrow> message" where
  "lower_ack_precedence msg =
     msg\<lparr>headers :=
       map (\<lambda>(k, v). if lower k = ''x-ack'' \<or> lower k = ''precedence'' then (k, lower v) else (k, v))
         (headers msg)\<rparr>"

section \<open>Handlers/Hold.py: the hold reasons\<close>

text \<open>
  The ten exception classes of the module, and their instances.  A class is what
  \<open>process\<close> hands to \<open>hold_for_approval\<close>; an instance is what is raised.
  \<open>MessageTooBig\<close> is the one class whose constructor takes arguments
  (\<open>msgsize\<close>, \<open>limit\<close>).
\<close>

datatype hold_class =
    ForbiddenPoster | ModeratedPost | NonMemberPost | NotExplicitlyAllowed
  | TooManyRecipients | ImplicitDestination | Administrivia | SuspiciousHeaders
  | MessageTooBig | ModeratedNewsgroup

datatype hold_exc =
    ForbiddenPoster_inst | ModeratedPost_inst | NonMemberPost_inst
  | NotExplicitlyAllowed_inst | TooManyRecipients_inst | ImplicitDestination_inst
  | Administrivia_inst | SuspiciousHeaders_inst | MessageTooBig_inst int int
  | ModeratedNewsgroup_inst

text \<open>The fourth argument of \<open>hold_for_approval\<close>: a class or an instance.\<close>

datatype exc_arg = Class hold_class | Instance hold_exc

text \<open>
  The exceptions of the model: the hold reason itself, the \<open>TypeError\<close> of a
  constructor called with too few arguments or of \<open>int()\<close> given a list, the
  \<open>ValueError\<close> of \<open>int()\<close> given a string that is no number, and a failure of one
  of the collaborators of the hold code (the hold registrar, the pending store,
  the mail sender), which that code does not catch.
\<close>

datatype exn = HoldMessage hold_exc | TypeError | ValueError | CollaboratorError string

datatype outcome = Returned | Raised exn

text \<open>
  \<open>exc()\<close>: the class called with no argument.  \<open>MessageTooBig.__init__\<close> has two
  required parameters, so the call raises \<open>TypeError\<close> there.
\<close>

fun instantiate :: "hold_class \<Rightarrow> exn + hold_exc" where
  "instantiate ForbiddenPoster = Inr ForbiddenPoster_inst"
| "instantiate ModeratedPost = Inr ModeratedPost_inst"
| "instantiate NonMemberPost = Inr NonMemberPost_inst"
| "instantiate NotExplicitlyAllowed = Inr NotExplicitlyAllowed_inst"
| "instantiate TooManyRecipients = Inr TooManyRecipients_inst"
| "instantiate ImplicitDestination = Inr ImplicitDestination_inst"
| "instantiate Administrivia = Inr Administrivia_inst"
| "instantiate SuspiciousHeaders = Inr SuspiciousHeaders_inst"
| "instantiate MessageTooBig = Inl TypeError"
| "instantiate ModeratedNewsgroup = Inr ModeratedNewsgroup_inst"

text \<open>
  \<^verbatim>\<open>
      if isinstance(exc, ClassType) or isinstance(exc, type):
          # Go ahead and instantiate it now.
          exc = exc()
  \<close>
\<close>

fun normalize_exc :: "exc_arg \<Rightarrow> exn + hold_exc" where
  "normalize_exc (Class c) = instantiate c"
| "normalize_exc (Instance e) = Inr e"

section \<open>The mailing list, the collaborators and the effects\<close>

record member =
  member_preferred_language :: string

text \<open>
  The attributes of the mailing list that the module reads.  \<open>script_url\<close> and
  \<open>get_member\<close> (\<open>mlist.members.get_member\<close>) are methods of the list.
\<close>

record mailing_list =
  list_name :: string
  host_name :: string
  owner_address :: string
  bounces_address :: string
  request_address :: string
  preferred_language :: string
  admin_immed_notify :: bool
  respond_to_post_requests :: bool
  bounce_matching_headers :: string
  script_url :: "string \<Rightarrow> string"
  get_member :: "pyval \<Rightarrow> member option"

text \<open>
  The text of a notification.  \<open>Utils.maketext\<close> is not among the sources, so a
  rendered template is kept as the call that renders it: template name,
  substitution dictionary, the \<open>lang\<close> argument (if given) and the \<open>raw\<close> flag.
\<close>

datatype content = Maketext string "string \<rightharpoonup> pyval" "pyval option" bool | Plain string

text \<open>
  MIME objects: a message as received, a \<open>MIMEText\<close> (body, charset and the headers
  set on it afterwards, in order) and a \<open>MIMEMessage\<close> wrapping another object.
\<close>

datatype mime =
    Msg message
  | MIMEText content string "(string \<times> string) list"
  | MIMEMessage mime

text \<open>
  \<open>Message.UserNotification(recip, sender, subject, text, lang)\<close>, with the content
  type set by \<open>set_type\<close> and the parts added by \<open>attach\<close>.
\<close>

record notification =
  n_recip :: pyval
  n_sender :: string
  n_subject :: string
  n_text :: "content option"
  n_lang :: pyval
  n_type :: "string option"
  n_attached :: "mime list"

text \<open>
  The effects of a run, in the order they happen: \<open>hold_message(mlist, msg,
  msgdata, reason)\<close> (with the metadata as it is at the call),
  \<open>config.db.pendings.add(pendable)\<close>, \<open>nmsg.send(mlist, tomoderators)\<close> and
  \<open>log.info(format, args)\<close>.
\<close>

datatype event =
    Hold_message "string \<rightharpoonup> pyval" string
  | Pendings_add "string \<rightharpoonup> pyval"
  | Send notification bool
  | Log_info "string \<times> pyval list"

text \<open>
  The functions of other modules that the hold code calls.  The three that the
  specification names as able to fail return the failure as a value:
  \<open>hold_message\<close> and \<open>pendings_add\<close> return \<open>Inl\<close>, \<open>send\<close> returns \<open>Some\<close>.
  \<open>get_sender\<close> is \<open>Message.get_sender(use_envelope)\<close>, with \<open>None\<close> for the call
  without argument.  \<open>translate\<close> is \<open>i18n._\<close>: the active language, the text and the
  caller's variables that the text may name.
\<close>

record env =
  get_sender :: "message \<Rightarrow> int option \<Rightarrow> string"
  has_matching_bounce_header :: "mailing_list \<Rightarrow> message \<Rightarrow> bool"
  hold_message :: "mailing_list \<Rightarrow> message \<Rightarrow> (string \<rightharpoonup> pyval) \<Rightarrow> string \<Rightarrow> string + int"
  pendings_add :: "(string \<rightharpoonup> pyval) \<Rightarrow> string + string"
  autorespond_to_sender :: "mailing_list \<Rightarrow> pyval \<Rightarrow> pyval \<Rightarrow> bool"
  send :: "notification \<Rightarrow> bool \<Rightarrow> string option"
  GetCharSet :: "string \<Rightarrow> string"
  oneline :: "string \<Rightarrow> string \<Rightarrow> string"
  wrap :: "string \<Rightarrow> string"
  translate :: "string \<Rightarrow> string \<Rightarrow> (string \<times> pyval) list \<Rightarrow> string"
  formatdate :: string
  make_msgid :: string

text \<open>
  The mutable state: the metadata dictionary of the message, the active
  translation language (the global that \<open>i18n.using_language\<close> switches) and the
  effects so far.
\<close>

record state =
  msgdata :: "string \<rightharpoonup> pyval"
  language :: string
  trace :: "event list"

definition emit :: "event \<Rightarrow> state \<Rightarrow> state" where
  "emit e s = s\<lparr>trace := trace s @ [e]\<rparr>"

section \<open>Handlers/Hold.py: reason and rejection texts\<close>

text \<open>
  Modelled from the spec: the base class \<open>Errors.HoldMessage\<close> is not among the
  sources.  Following the specification's data model (each reason carries a short
  reason string and a rejection notice that is static text or a template), its
  \<open>reason_notice()\<close> returns the class attribute \<open>reason\<close> and its
  \<open>rejection_notice(mlist)\<close> returns the class attribute \<open>rejection\<close>.  The class
  attributes are set while \<open>_\<close> is the identity, so they are the literal texts;
  the methods of \<open>Administrivia\<close> and \<open>MessageTooBig\<close> run after \<open>_\<close> has been
  reset to \<open>i18n._\<close> and translate in the active language.
\<close>

fun reason_notice :: "env \<Rightarrow> string \<Rightarrow> hold_exc \<Rightarrow> string" where
  "reason_notice env lang ForbiddenPoster_inst = ''Sender is explicitly forbidden''"
| "reason_notice env lang ModeratedPost_inst = ''Post to moderated list''"
| "reason_notice env lang NonMemberPost_inst = ''Post by non-member to a members-only list''"
| "reason_notice env lang NotExplicitlyAllowed_inst =
     ''Posting to a restricted list by sender requires approval''"
| "reason_notice env lang TooManyRecipients_inst = ''Too many recipients to the message''"
| "reason_notice env lang ImplicitDestination_inst = ''Message has implicit destination''"
| "reason_notice env lang Administrivia_inst = ''Message may contain administrivia''"
| "reason_notice env lang SuspiciousHeaders_inst = ''Message has a suspicious header''"
| "reason_notice env lang (MessageTooBig_inst msgsize limit) =
     translate env lang
       ''Message body is too big: $size bytes with a limit of\<newline>$limit KB''
       [(''size'', PInt msgsize), (''limit'', PInt limit)]"
| "reason_notice env lang ModeratedNewsgroup_inst = ''Posting to a moderated newsgroup''"

fun rejection_notice :: "env \<Rightarrow> string \<Rightarrow> hold_exc \<Rightarrow> mailing_list \<Rightarrow> string" where
  "rejection_notice env lang ForbiddenPoster_inst mlist =
     ''You are forbidden from posting messages to this list.''"
| "rejection_notice env lang ModeratedPost_inst mlist =
     ''Your message was deemed inappropriate by the moderator.''"
| "rejection_notice env lang NonMemberPost_inst mlist =
     ''Non-members are not allowed to post messages to this list.''"
| "rejection_notice env lang NotExplicitlyAllowed_inst mlist =
     ''This list is restricted; your message was not approved.''"
| "rejection_notice env lang TooManyRecipients_inst mlist =
     ''Please trim the recipient list; it is too long.''"
| "rejection_notice env lang ImplicitDestination_inst mlist =
     ''Blind carbon copies or other implicit destinations are\<newline>not allowed.  Try reposting your message by explicitly including the list\<newline>address in the To: or Cc: fields.''"
| "rejection_notice env lang Administrivia_inst mlist =
     translate env lang
       ''Please do *not* post administrative requests to the mailing\<newline>list.  If you wish to subscribe, visit $listurl or send a message with the\<newline>word `help' in it to the request address, $request, for further\<newline>instructions.''
       [(''listurl'', PStr (script_url mlist ''listinfo'')),
        (''request'', PStr (request_address mlist))]"
| "rejection_notice env lang SuspiciousHeaders_inst mlist =
     ''Your message had a suspicious header.''"
| "rejection_notice env lang (MessageTooBig_inst msgsize limit) mlist =
     translate env lang
       ''Your message was too big; please trim it to less than\<newline>$kb KB in size.''
       [(''kb'', PInt limit)]"
| "rejection_notice env lang ModeratedNewsgroup_inst mlist =
     ''Your message was deemed inappropriate by the moderator.''"

section \<open>Handlers/Hold.py: hold_for_approval\<close>

definition PEND_KEY :: string where
  "PEND_KEY = ''held message''"

text \<open>\<open>HeldMessagePendable(type=HeldMessagePendable.PEND_KEY, id=id)\<close>, a dictionary.\<close>

definition HeldMessagePendable :: "int \<Rightarrow> (string \<rightharpoonup> pyval)" where
  "HeldMessagePendable held_id = [''type'' \<mapsto> PStr PEND_KEY, ''id'' \<mapsto> PInt held_id]"

text \<open>
  Line 179: \<open>sender = msgdata.get('sender', msg.get_sender())\<close>.
\<close>

definition effective_sender :: "env \<Rightarrow> message \<Rightarrow> (string \<rightharpoonup> pyval) \<Rightarrow> pyval" where
  "effective_sender env msg md = dict_get md ''sender'' (PStr (get_sender env msg None))"

text \<open>
  Lines 180 to 185, with \<open>lang\<close> the active translation language:
  \<^verbatim>\<open>
      usersubject = msg.get('subject')
      charset = Utils.GetCharSet(mlist.preferred_language)
      if usersubject:
          usersubject = Utils.oneline(usersubject, charset)
      else:
          usersubject = _('(no subject)')
  \<close>
\<close>

definition display_subject :: "env \<Rightarrow> mailing_list \<Rightarrow> message \<Rightarrow> string \<Rightarrow> string" where
  "display_subject env mlist msg lang =
     (let usersubject = msg_get msg ''subject'';
          charset = GetCharSet env (preferred_language mlist)
      in case usersubject of
           None \<Rightarrow> translate env lang ''(no subject)'' []
         | Some u \<Rightarrow>
             if u \<noteq> [] then oneline env u charset
             else translate env lang ''(no subject)'' [])"

text \<open>Lines 197 to 203: the substitution dictionary \<open>d\<close>.\<close>

definition substitutions ::
  "env \<Rightarrow> mailing_list \<Rightarrow> string \<Rightarrow> pyval \<Rightarrow> string \<Rightarrow> string \<Rightarrow> (string \<rightharpoonup> pyval)" where
  "substitutions env mlist lang sender usersubject reason =
     [''listname'' \<mapsto> PStr (list_name mlist),
      ''hostname'' \<mapsto> PStr (host_name mlist),
      ''reason'' \<mapsto> PStr (translate env lang reason []),
      ''sender'' \<mapsto> sender,
      ''subject'' \<mapsto> PStr usersubject,
      ''admindb_url'' \<mapsto> PStr (script_url mlist ''admindb'')]"

text \<open>
  Lines 218 and 219:
  \<^verbatim>\<open>
      member = mlist.members.get_member(sender)
      lang = (member.preferred_language if member else mlist.preferred_language)
  \<close>
\<close>

definition response_language :: "mailing_list \<Rightarrow> pyval \<Rightarrow> pyval" where
  "response_language mlist sender =
     (let member = get_member mlist sender
      in case member of
           Some m \<Rightarrow> PStr (member_preferred_language m)
         | None \<Rightarrow> PStr (preferred_language mlist))"

text \<open>
  Lines 223 to 228, the notice to the poster: \<open>md\<close> is the metadata, \<open>active\<close> the
  active translation language, and \<open>d\<close> comes with \<open>confirmurl\<close> set.
  \<^verbatim>\<open>
          lang = msgdata.get('lang', lang)
          subject = _('Your message to $listname awaits moderator approval')
          text = Utils.maketext('postheld.txt', d, lang=lang, mlist=mlist)
          nmsg = Message.UserNotification(sender, adminaddr, subject, text, lang)
  \<close>
\<close>

definition sender_notice ::
  "env \<Rightarrow> mailing_list \<Rightarrow> (string \<rightharpoonup> pyval) \<Rightarrow> string \<Rightarrow> (string \<rightharpoonup> pyval) \<Rightarrow> pyval \<Rightarrow> pyval
     \<Rightarrow> notification" where
  "sender_notice env mlist md active d sender lang =
     (let listname = list_name mlist;
          adminaddr = bounces_address mlist;
          lang = dict_get md ''lang'' lang;
          subject = translate env active
            ''Your message to $listname awaits moderator approval''
            [(''listname'', PStr listname)];
          text = Maketext ''postheld.txt'' d (Some lang) False
      in \<lparr>n_recip = sender, n_sender = adminaddr, n_subject = subject,
           n_text = Some text, n_lang = lang, n_type = None, n_attached = []\<rparr>)"

text \<open>
  Lines 220 to 229, the body of the first \<open>if\<close>.  It returns the state, the
  dictionary \<open>d\<close> (which has gained \<open>confirmurl\<close>) and the failure of \<open>send\<close>, if any.
  \<^verbatim>\<open>
          d['confirmurl'] = '%s/%s' % (
              mlist.script_url('confirm'), token)
          ...
          nmsg.send(mlist)
  \<close>
\<close>

definition notify_sender ::
  "env \<Rightarrow> mailing_list \<Rightarrow> state \<Rightarrow> (string \<rightharpoonup> pyval) \<Rightarrow> pyval \<Rightarrow> pyval \<Rightarrow> string
     \<Rightarrow> state \<times> (string \<rightharpoonup> pyval) \<times> string option" where
  "notify_sender env mlist s d sender lang token =
     (let d = d(''confirmurl'' \<mapsto> PStr (script_url mlist ''confirm'' @ ''/'' @ token));
          nmsg = sender_notice env mlist (msgdata s) (language s) d sender lang
      in case send env nmsg False of
           Some err \<Rightarrow> (s, d, Some err)
         | None \<Rightarrow> (emit (Send nmsg False) s, d, None))"

text \<open>
  Lines 237 to 264, the notice to the owners and moderators, with \<open>lang\<close> the
  list's preferred language, which is active while the notice is composed.
\<close>

definition owner_notice ::
  "env \<Rightarrow> mailing_list \<Rightarrow> message \<Rightarrow> (string \<rightharpoonup> pyval) \<Rightarrow> pyval \<Rightarrow> string \<Rightarrow> string
     \<Rightarrow> string \<Rightarrow> notification" where
  "owner_notice env mlist msg d sender usersubject reason token =
     (let listname = list_name mlist;
          owneraddr = owner_address mlist;
          requestaddr = request_address mlist;
          lang = preferred_language mlist;
          charset = GetCharSet env lang;
          d = d(''reason'' \<mapsto> PStr (translate env lang reason []));
          d = d(''subject'' \<mapsto> PStr usersubject);
          subject = translate env lang
            ''$listname post from $sender requires approval''
            [(''listname'', PStr listname), (''sender'', sender)];
          text = MIMEText (Maketext ''postauth.txt'' d None True) charset [];
          dmsg = MIMEText
            (Plain (wrap env (translate env lang
               ''If you reply to this message, keeping the Subject: header intact, Mailman will\<newline>discard the held message.  Do this if the message is spam.  If you reply to\<newline>this message and include an Approved: header with the list password in it, the\<newline>message will be approved for posting to the list.  The Approved: header can\<newline>also appear in the first line of the body of the reply.''
               [])))
            (GetCharSet env lang)
            [(''Subject'', ''confirm '' @ token),
             (''Sender'', requestaddr),
             (''From'', requestaddr),
             (''Date'', formatdate env),
             (''Message-ID'', make_msgid env)]
      in \<lparr>n_recip = PStr owneraddr, n_sender = owneraddr, n_subject = subject,
           n_text = None, n_lang = PStr lang, n_type = Some ''multipart/mixed'',
           n_attached = [text, MIMEMessage (Msg msg), MIMEMessage dmsg]\<rparr>)"

text \<open>
  Lines 233 to 265, the body of the second \<open>if\<close>.  The \<open>with\<close> statement makes the
  list's preferred language the active one and restores the former language on
  the way out, also when \<open>send\<close> fails.
  \<^verbatim>\<open>
          with i18n.using_language(mlist.preferred_language):
              ...
              nmsg.send(mlist, **{'tomoderators': 1})
  \<close>
\<close>

definition notify_owners ::
  "env \<Rightarrow> mailing_list \<Rightarrow> message \<Rightarrow> state \<Rightarrow> (string \<rightharpoonup> pyval) \<Rightarrow> pyval \<Rightarrow> string
     \<Rightarrow> string \<Rightarrow> string \<Rightarrow> state \<times> string option" where
  "notify_owners env mlist msg s d sender usersubject reason token =
     (let saved = language s;
          s = s\<lparr>language := preferred_language mlist\<rparr>;
          nmsg = owner_notice env mlist msg d sender usersubject reason token
      in case send env nmsg True of
           Some err \<Rightarrow> (s\<lparr>language := saved\<rparr>, Some err)
         | None \<Rightarrow> ((emit (Send nmsg True) s)\<lparr>language := saved\<rparr>, None))"

text \<open>Lines 267 and 268: the format and the arguments of the call of \<open>log.info\<close>.\<close>

definition log_line :: "string \<Rightarrow> pyval \<Rightarrow> string \<Rightarrow> string \<Rightarrow> string \<times> pyval list" where
  "log_line listname sender message_id reason =
     (''%s post from %s held, message-id=%s: %s'',
      [PStr listname, sender, PStr message_id, PStr reason])"

text \<open>
  \<open>hold_for_approval(mlist, msg, msgdata, exc)\<close>.  The result is the state it
  leaves and how it ends.  Every \<open>Raised\<close> below is either the \<open>raise exc\<close> of the
  last line or an exception that passes through the function uncaught.
\<close>

definition hold_for_approval ::
  "env \<Rightarrow> mailing_list \<Rightarrow> message \<Rightarrow> state \<Rightarrow> exc_arg \<Rightarrow> state \<times> outcome" where
  "hold_for_approval env mlist msg s exc =
     (case normalize_exc exc of
        Inl e \<Rightarrow> (s, Raised e)
      | Inr exc \<Rightarrow>
        (let listname = list_name mlist;
             sender = effective_sender env msg (msgdata s);
             usersubject = display_subject env mlist msg (language s);
             message_id = msg_get_default msg ''message-id'' ''n/a'';
             reason = wrap env (reason_notice env (language s) exc);
             s = s\<lparr>msgdata := (msgdata s)(''rejection_notice'' \<mapsto>
                    PStr (wrap env (rejection_notice env (language s) exc mlist)))\<rparr>
         in (case hold_message env mlist msg (msgdata s) reason of
               Inl err \<Rightarrow> (s, Raised (CollaboratorError err))
             | Inr held_id \<Rightarrow>
               (let s = emit (Hold_message (msgdata s) reason) s;
                    d = substitutions env mlist (language s) sender usersubject reason;
                    fromusenet = dict_get (msgdata s) ''fromusenet'' PNone;
                    pendable = HeldMessagePendable held_id
                in (case pendings_add env pendable of
                      Inl err \<Rightarrow> (s, Raised (CollaboratorError err))
                    | Inr token \<Rightarrow>
                      (let s = emit (Pendings_add pendable) s;
                           lang = response_language mlist sender
                       in (case (if \<not> truthy fromusenet \<and> ackp msg \<noteq> 0
                                    \<and> respond_to_post_requests mlist
                                    \<and> autorespond_to_sender env mlist sender lang
                                 then notify_sender env mlist s d sender lang token
                                 else (s, d, None)) of
                             (s, d, Some err) \<Rightarrow> (s, Raised (CollaboratorError err))
                           | (s, d, None) \<Rightarrow>
                             (case (if admin_immed_notify mlist
                                    then notify_owners env mlist msg s d sender
                                           usersubject reason token
                                    else (s, None)) of
                                (s, Some err) \<Rightarrow> (s, Raised (CollaboratorError err))
                              | (s, None) \<Rightarrow>
                                (let s = emit (Log_info (log_line listname sender message_id reason)) s
                                 in (s, Raised (HoldMessage exc)))))))))))"

section \<open>Handlers/Hold.py: process\<close>

text \<open>
  Lines 150 to 158: the sender that \<open>process\<close> works out for itself.
  \<^verbatim>\<open>
      listname = mlist.list_name
      adminaddr = listname + '-admin'
      sender = msg.get_sender()
      if not sender or sender[:len(listname)+6] == adminaddr:
          sender = msg.get_sender(use_envelope=0)
  \<close>
\<close>

definition process_sender :: "env \<Rightarrow> mailing_list \<Rightarrow> message \<Rightarrow> string" where
  "process_sender env mlist msg =
     (let listname = list_name mlist;
          adminaddr = listname @ ''-admin'';
          sender = get_sender env msg None
      in if sender = [] \<or> take (length listname + 6) sender = adminaddr
         then get_sender env msg (Some 0)
         else sender)"

text \<open>
  \<open>process(mlist, msg, msgdata)\<close>.  The variable \<open>sender\<close> is local to \<open>process\<close>:
  the call of \<open>hold_for_approval\<close> passes \<open>mlist\<close>, \<open>msg\<close>, \<open>msgdata\<close> and the class.
\<close>

definition process :: "env \<Rightarrow> mailing_list \<Rightarrow> message \<Rightarrow> state \<Rightarrow> state \<times> outcome" where
  "process env mlist msg s =
     (if truthy (dict_get (msgdata s) ''approved'' PNone) then (s, Returned)
      else
        let sender = process_sender env mlist msg
        in if bounce_matching_headers mlist \<noteq> [] then
             let triggered = has_matching_bounce_header env mlist msg
             in if triggered then
                  (case hold_for_approval env mlist msg s (Class SuspiciousHeaders) of
                     (s, Raised e) \<Rightarrow> (s, Raised e)
                   | (s, Returned) \<Rightarrow> (s, Returned))
                else (s, Returned)
           else (s, Returned))"

section \<open>Gui/Topics.py: the form data\<close>

text \<open>
  \<open>cgidata\<close> is a \<open>cgi.FieldStorage\<close>.  Its \<open>getvalue(key)\<close> returns the string
  sent for a field, the list of the strings when the field was sent more than
  once, and \<open>None\<close> when the field is absent.  The form is kept as the list of its
  fields with their values.
\<close>

datatype cgival = Str string | Lst "string list"

type_synonym cgidata = "(string \<times> cgival) list"

definition has_key :: "cgidata \<Rightarrow> string \<Rightarrow> bool" where
  "has_key cgidata key = (map_of cgidata key \<noteq> None)"

definition getvalue :: "cgidata \<Rightarrow> string \<Rightarrow> cgival option" where
  "getvalue cgidata key = map_of cgidata key"

fun truthy_cgi :: "cgival \<Rightarrow> bool" where
  "truthy_cgi (Str s) = (s \<noteq> [])"
| "truthy_cgi (Lst l) = (l \<noteq> [])"

text \<open>\<open>'%02d' % i\<close> for \<open>i\<close> from 1 on: decimal digits, padded with a zero to two.\<close>

definition digit :: "nat \<Rightarrow> char" where
  "digit n = ''0123456789'' ! n"

fun decimal :: "nat \<Rightarrow> string" where
  "decimal n = (if n < 10 then [digit n] else decimal (n div 10) @ [digit (n mod 10)])"

declare decimal.simps [simp del]

definition fmt02d :: "nat \<Rightarrow> string" where
  "fmt02d i = (let d = decimal i in if length d < 2 then ''0'' @ d else d)"

text \<open>A tag of the form: \<open>'topic_box_%02d' % i\<close> is \<open>tag ''topic_box_'' i\<close>.\<close>

definition tag :: "string \<Rightarrow> nat \<Rightarrow> string" where
  "tag prefix i = prefix @ fmt02d i"

text \<open>
  The loop of \<open>HandleForm\<close> stops at the first index whose box is absent and
  whose delete tag is absent.  A form has finitely many fields, and the tag of
  index \<open>i\<close> is at least as long as \<open>i\<close> has digits, so no index from ten to the
  power of the longest field name on has a tag in the form: this bounds the loop.
\<close>

definition max_key_length :: "cgidata \<Rightarrow> nat" where
  "max_key_length cgidata = fold max (map (length \<circ> fst) cgidata) 0"

lemma decimal_bound: "n < 10 ^ length (decimal n)"
proof (induction n rule: decimal.induct)
  case (1 n)
  show ?case
  proof (cases "n < 10")
    case True
    then show ?thesis by (simp add: decimal.simps[of n])
  next
    case False
    with 1 have "n div 10 < 10 ^ length (decimal (n div 10))" by simp
    then have "n < 10 * 10 ^ length (decimal (n div 10))" by arith
    with False show ?thesis by (simp add: decimal.simps[of n])
  qed
qed

lemma fmt02d_bound: "n < 10 ^ length (fmt02d n)"
proof -
  have "length (decimal n) \<le> length (fmt02d n)" by (simp add: fmt02d_def Let_def)
  then have "(10::nat) ^ length (decimal n) \<le> 10 ^ length (fmt02d n)"
    by (simp add: power_increasing)
  with decimal_bound[of n] show ?thesis by linarith
qed

lemma fold_max_ge: "(m::nat) \<le> fold max xs m"
  by (induction xs arbitrary: m) (auto intro: order_trans[OF max.cobounded2])

lemma fold_max_mem: "(x::nat) \<in> set xs \<Longrightarrow> x \<le> fold max xs m"
proof (induction xs arbitrary: m)
  case Nil
  then show ?case by simp
next
  case (Cons y ys)
  show ?case
  proof (cases "x = y")
    case True
    have "max y m \<le> fold max ys (max y m)" by (rule fold_max_ge)
    with True show ?thesis by simp
  next
    case False
    with Cons show ?thesis by simp
  qed
qed

lemma has_key_length: "has_key cgidata key \<Longrightarrow> length key \<le> max_key_length cgidata"
proof -
  assume "has_key cgidata key"
  then have "key \<in> fst ` set cgidata"
    by (auto simp: has_key_def dest: map_of_SomeD intro: rev_image_eqI)
  then have "length key \<in> set (map (length \<circ> fst) cgidata)" by auto
  then show ?thesis unfolding max_key_length_def by (rule fold_max_mem)
qed

lemma tag_index_bound:
  assumes "has_key cgidata (tag prefix i)"
  shows "i < 10 ^ max_key_length cgidata"
proof -
  have "length (fmt02d i) \<le> max_key_length cgidata"
    using has_key_length[OF assms] by (simp add: tag_def)
  then have "(10::nat) ^ length (fmt02d i) \<le> 10 ^ max_key_length cgidata"
    by (simp add: power_increasing)
  with fmt02d_bound[of i] show ?thesis by linarith
qed

lemma next_index:
  assumes "has_key cgidata (tag prefix i)"
  shows "10 ^ max_key_length cgidata - Suc i < 10 ^ max_key_length cgidata - i"
  using tag_index_bound[OF assms] by arith

lemma getvalue_has_key: "getvalue cgidata key = Some v \<Longrightarrow> has_key cgidata key"
  by (simp add: getvalue_def has_key_def)

lemma getvalue_has_key_sym: "Some v = getvalue cgidata key \<Longrightarrow> has_key cgidata key"
  using getvalue_has_key[of cgidata key v] by simp

section \<open>Gui/Topics.py: HandleForm\<close>

text \<open>
  A topic is the tuple \<open>(name, pattern, desc, empty)\<close> that the loop appends;
  \<open>pattern\<close> and \<open>desc\<close> are \<open>None\<close> when the form lacks their fields.
\<close>

type_synonym topic = "cgival \<times> cgival option \<times> cgival option \<times> int"

text \<open>
  Lines 85 to 128, the \<open>while 1\<close> loop, as a function of the index \<open>i\<close> and the
  topics collected so far; \<open>continue\<close> is the call with the next index and \<open>break\<close>
  the return of the topics.
\<close>

function topics_loop :: "cgidata \<Rightarrow> nat \<Rightarrow> topic list \<Rightarrow> topic list" where
  "topics_loop cgidata i topics =
     (let deltag = tag ''topic_delete_'' i;
          boxtag = tag ''topic_box_'' i;
          reboxtag = tag ''topic_rebox_'' i;
          desctag = tag ''topic_desc_'' i;
          wheretag = tag ''topic_where_'' i;
          addtag = tag ''topic_add_'' i;
          newtag = tag ''topic_new_'' i
      in if has_key cgidata deltag then topics_loop cgidata (i + 1) topics
         else
           (let name = getvalue cgidata boxtag;
                pattern = getvalue cgidata reboxtag;
                desc = getvalue cgidata desctag
            in case name of
                 None \<Rightarrow> topics
               | Some name \<Rightarrow>
                   if has_key cgidata newtag
                      \<and> (\<not> truthy_cgi name
                         \<or> \<not> (case pattern of None \<Rightarrow> False | Some p \<Rightarrow> truthy_cgi p))
                   then topics_loop cgidata (i + 1) topics
                   else if has_key cgidata addtag then
                     (let whereval = getvalue cgidata wheretag
                      in if whereval = Some (Str ''before'')
                         then topics_loop cgidata (i + 1)
                                (topics @ [(Str [], Some (Str []), Some (Str []), 1),
                                           (name, pattern, desc, 0)])
                         else topics_loop cgidata (i + 1)
                                (topics @ [(name, pattern, desc, 0),
                                           (Str [], Some (Str []), Some (Str []), 1)]))
                   else topics_loop cgidata (i + 1) (topics @ [(name, pattern, desc, 0)])))"
  by pat_completeness auto

termination
proof (relation "measure (\<lambda>(cgidata, i, topics). 10 ^ max_key_length cgidata - i)")
qed (auto intro: next_index getvalue_has_key_sym)

declare topics_loop.simps [simp del]

text \<open>The list object, with the three attributes that \<open>HandleForm\<close> assigns.\<close>

record maillist =
  topics :: "topic list"
  topics_enabled :: int
  topics_bodylines_limit :: int

text \<open>
  \<open>int(x)\<close> on what \<open>getvalue\<close> returns.  \<open>int_of_str\<close> is Python's \<open>int\<close> on a
  string, with \<open>None\<close> for its \<open>ValueError\<close>; a list is no argument for \<open>int\<close>.
\<close>

definition py_int :: "(string \<Rightarrow> int option) \<Rightarrow> cgival \<Rightarrow> exn + int" where
  "py_int int_of_str v =
     (case v of
        Str s \<Rightarrow> (case int_of_str s of None \<Rightarrow> Inl ValueError | Some n \<Rightarrow> Inr n)
      | Lst l \<Rightarrow> Inl TypeError)"

text \<open>
  \<open>int(cgidata.getvalue(key, prior))\<close>, where the default \<open>prior\<close> is the integer that
  the attribute holds.
\<close>

definition int_getvalue ::
  "(string \<Rightarrow> int option) \<Rightarrow> cgidata \<Rightarrow> string \<Rightarrow> int \<Rightarrow> exn + int" where
  "int_getvalue int_of_str cgidata key prior =
     (case getvalue cgidata key of
        None \<Rightarrow> Inr prior
      | Some v \<Rightarrow> py_int int_of_str v)"

text \<open>
  \<^verbatim>\<open>
        try:
            mlist.topics_enabled = int(cgidata.getvalue(
                'topics_enabled',
                mlist.topics_enabled))
        except ValueError:
            # BAW: should really print a warning
            pass
  \<close>
  and the same for \<open>topics_bodylines_limit\<close>.
\<close>

definition set_topics_enabled ::
  "(string \<Rightarrow> int option) \<Rightarrow> cgidata \<Rightarrow> maillist \<Rightarrow> exn + maillist" where
  "set_topics_enabled int_of_str cgidata mlist =
     (case int_getvalue int_of_str cgidata ''topics_enabled'' (topics_enabled mlist) of
        Inr n \<Rightarrow> Inr (mlist\<lparr>topics_enabled := n\<rparr>)
      | Inl ValueError \<Rightarrow> Inr mlist
      | Inl e \<Rightarrow> Inl e)"

definition set_topics_bodylines_limit ::
  "(string \<Rightarrow> int option) \<Rightarrow> cgidata \<Rightarrow> maillist \<Rightarrow> exn + maillist" where
  "set_topics_bodylines_limit int_of_str cgidata mlist =
     (case int_getvalue int_of_str cgidata ''topics_bodylines_limit''
             (topics_bodylines_limit mlist) of
        Inr n \<Rightarrow> Inr (mlist\<lparr>topics_bodylines_limit := n\<rparr>)
      | Inl ValueError \<Rightarrow> Inr mlist
      | Inl e \<Rightarrow> Inl e)"

text \<open>
  \<open>Topics.HandleForm(self, mlist, cgidata, doc)\<close>; \<open>self\<close> and \<open>doc\<close> are not used.
  The result is the list object as the call leaves it, or the exception that
  leaves the call.
\<close>

definition HandleForm ::
  "(string \<Rightarrow> int option) \<Rightarrow> maillist \<Rightarrow> cgidata \<Rightarrow> exn + maillist" where
  "HandleForm int_of_str mlist cgidata =
     (let topics = topics_loop cgidata 1 [];
          mlist = mlist\<lparr>topics := topics\<rparr>
      in case set_topics_enabled int_of_str cgidata mlist of
           Inl e \<Rightarrow> Inl e
         | Inr mlist \<Rightarrow> set_topics_bodylines_limit int_of_str cgidata mlist)"

text \<open>A field that the form does not repeat: absent, or sent once.\<close>

definition single_valued :: "cgidata \<Rightarrow> string \<Rightarrow> bool" where
  "single_valued cgidata key =
     (case getvalue cgidata key of Some (Lst l) \<Rightarrow> False | _ \<Rightarrow> True)"

section \<open>Reading the effects of a run\<close>

text \<open>The effects that a run from state \<open>s\<close> to state \<open>s'\<close> has added.\<close>

definition emitted :: "state \<Rightarrow> state \<Rightarrow> event list" where
  "emitted s s' = drop (length (trace s)) (trace s')"

text \<open>
  The notices sent to the poster (\<open>nmsg.send(mlist)\<close>) and those sent to the owners
  and moderators (\<open>nmsg.send(mlist, tomoderators=1)\<close>), the records handed to the
  pending store, and the log lines.
\<close>

fun sender_notices :: "event list \<Rightarrow> notification list" where
  "sender_notices [] = []"
| "sender_notices (Send n False # es) = n # sender_notices es"
| "sender_notices (e # es) = sender_notices es"

fun owner_notices :: "event list \<Rightarrow> notification list" where
  "owner_notices [] = []"
| "owner_notices (Send n True # es) = n # owner_notices es"
| "owner_notices (e # es) = owner_notices es"

fun pendings_added :: "event list \<Rightarrow> (string \<rightharpoonup> pyval) list" where
  "pendings_added [] = []"
| "pendings_added (Pendings_add p # es) = p # pendings_added es"
| "pendings_added (e # es) = pendings_added es"

fun log_lines :: "event list \<Rightarrow> (string \<times> pyval list) list" where
  "log_lines [] = []"
| "log_lines (Log_info line # es) = line # log_lines es"
| "log_lines (e # es) = log_lines es"

text \<open>
  The four conditions that the specification puts on the notice to the poster,
  read on the metadata as \<open>hold_for_approval\<close> receives it: \<open>fromusenet\<close> unset or
  false, \<open>ackp(msg)\<close> true, \<open>respond_to_post_requests\<close> true, and
  \<open>autorespond_to_sender(mlist, sender, lang)\<close> true, for the sender of the hold
  (the \<open>sender\<close> entry of the metadata, else \<open>msg.get_sender()\<close>) and the language of
  that sender (the member's, else the list's).
\<close>

definition sender_gate ::
  "env \<Rightarrow> mailing_list \<Rightarrow> message \<Rightarrow> (string \<rightharpoonup> pyval) \<Rightarrow> bool" where
  "sender_gate env mlist msg md =
     (let sender = (case md ''sender'' of
                      Some v \<Rightarrow> v
                    | None \<Rightarrow> PStr (get_sender env msg None));
          lang = (case get_member mlist sender of
                    Some m \<Rightarrow> PStr (member_preferred_language m)
                  | None \<Rightarrow> PStr (preferred_language mlist))
      in \<not> truthy (case md ''fromusenet'' of Some v \<Rightarrow> v | None \<Rightarrow> PNone)
         \<and> ackp msg \<noteq> 0
         \<and> respond_to_post_requests mlist
         \<and> autorespond_to_sender env mlist sender lang)"

text \<open>
  The effects of a run of \<open>hold_for_approval\<close> that reaches its last line, in
  order, given the identifier that \<open>hold_message\<close> returned and the token that the
  pending store returned.  Lemma \<open>held_emitted\<close> below proves that such a run has
  exactly these effects.
\<close>

definition held_effects ::
  "env \<Rightarrow> mailing_list \<Rightarrow> message \<Rightarrow> state \<Rightarrow> hold_exc \<Rightarrow> int \<Rightarrow> string \<Rightarrow> event list" where
  "held_effects env mlist msg s e held_id token =
     (let sender = effective_sender env msg (msgdata s);
          usersubject = display_subject env mlist msg (language s);
          reason = wrap env (reason_notice env (language s) e);
          md = (msgdata s)(''rejection_notice'' \<mapsto>
                 PStr (wrap env (rejection_notice env (language s) e mlist)));
          d = substitutions env mlist (language s) sender usersubject reason;
          d' = d(''confirmurl'' \<mapsto> PStr (script_url mlist ''confirm'' @ ''/'' @ token));
          gate = sender_gate env mlist msg (msgdata s)
      in [Hold_message md reason, Pendings_add (HeldMessagePendable held_id)]
         @ (if gate
            then [Send (sender_notice env mlist md (language s) d' sender
                    (response_language mlist sender)) False]
            else [])
         @ (if admin_immed_notify mlist
            then [Send (owner_notice env mlist msg (if gate then d' else d) sender
                    usersubject reason token) True]
            else [])
         @ [Log_info (log_line (list_name mlist) sender
              (msg_get_default msg ''message-id'' ''n/a'') reason)])"

text \<open>
  The confirmation URL that a notice to the poster carries in its substitutions,
  and the Subject header of the control message attached last to a notice to the
  owners.
\<close>

definition confirm_url :: "notification \<Rightarrow> pyval option" where
  "confirm_url n =
     (case n_text n of
        Some (Maketext template d lang raw) \<Rightarrow> d ''confirmurl''
      | _ \<Rightarrow> None)"

definition control_subject :: "notification \<Rightarrow> string option" where
  "control_subject n =
     (case n_attached n of
        [text, original, MIMEMessage (MIMEText body charset hs)] \<Rightarrow> map_of hs ''Subject''
      | _ \<Rightarrow> None)"


text \<open>A run that a collaborator's failure has cut short.\<close>

definition collaborator_failed :: "outcome \<Rightarrow> bool" where
  "collaborator_failed out =
     (case out of Raised (CollaboratorError err) \<Rightarrow> True | _ \<Rightarrow> False)"

text \<open>
  The language in which the body of a notice is rendered: the \<open>lang\<close> argument of
  its \<open>Utils.maketext\<close> call.
\<close>

definition rendered_language :: "notification \<Rightarrow> pyval option" where
  "rendered_language n =
     (case n_text n of
        Some (Maketext template d lang raw) \<Rightarrow> lang
      | _ \<Rightarrow> None)"

text \<open>
  The collaborators of one run, for the reason \<open>e\<close> that the run holds the message
  for.  \<open>registration_succeeds\<close>: \<open>hold_message\<close> returns an identifier for the
  metadata and the reason text of the run, and the pending store returns a token
  for the pendable built from that identifier.  \<open>collaborators_succeed\<close>: moreover
  \<open>send\<close> does not fail on the notice to the poster, if the four conditions ask
  for one, nor on the notice to the owners, if \<open>admin_immed_notify\<close> asks for one.
\<close>

definition registration_succeeds ::
  "env \<Rightarrow> mailing_list \<Rightarrow> message \<Rightarrow> state \<Rightarrow> hold_exc \<Rightarrow> bool" where
  "registration_succeeds env mlist msg s e =
     (let reason = wrap env (reason_notice env (language s) e);
          md = (msgdata s)(''rejection_notice'' \<mapsto>
                 PStr (wrap env (rejection_notice env (language s) e mlist)))
      in case hold_message env mlist msg md reason of
           Inl err \<Rightarrow> False
         | Inr held_id \<Rightarrow>
             (case pendings_add env (HeldMessagePendable held_id) of
                Inl err \<Rightarrow> False
              | Inr token \<Rightarrow> True))"

definition collaborators_succeed ::
  "env \<Rightarrow> mailing_list \<Rightarrow> message \<Rightarrow> state \<Rightarrow> hold_exc \<Rightarrow> bool" where
  "collaborators_succeed env mlist msg s e =
     (let sender = effective_sender env msg (msgdata s);
          usersubject = display_subject env mlist msg (language s);
          reason = wrap env (reason_notice env (language s) e);
          md = (msgdata s)(''rejection_notice'' \<mapsto>
                 PStr (wrap env (rejection_notice env (language s) e mlist)));
          d = substitutions env mlist (language s) sender usersubject reason;
          gate = sender_gate env mlist msg (msgdata s)
      in case hold_message env mlist msg md reason of
           Inl err \<Rightarrow> False
         | Inr held_id \<Rightarrow>
             (case pendings_add env (HeldMessagePendable held_id) of
                Inl err \<Rightarrow> False
              | Inr token \<Rightarrow>
                  (let d' = d(''confirmurl'' \<mapsto>
                              PStr (script_url mlist ''confirm'' @ ''/'' @ token))
                   in (gate \<longrightarrow>
                         send env (sender_notice env mlist md (language s) d' sender
                                     (response_language mlist sender)) False = None)
                      \<and> (admin_immed_notify mlist \<longrightarrow>
                            send env (owner_notice env mlist msg (if gate then d' else d)
                                        sender usersubject reason token) True = None))))"

section \<open>A concrete list, message and set of collaborators\<close>

text \<open>
  A sender lookup in the manner of \<open>Message.get_sender\<close>: the Sender header, which
  stands for the envelope sender, comes before the From header when
  \<open>use_envelope\<close> is true, or when it is not given and the site setting
  \<open>USE_ENVELOPE_SENDER\<close> is true; otherwise From comes first.
\<close>

definition demo_get_sender :: "bool \<Rightarrow> message \<Rightarrow> int option \<Rightarrow> string" where
  "demo_get_sender USE_ENVELOPE_SENDER msg use_envelope =
     (let senderfirst = (case use_envelope of None \<Rightarrow> USE_ENVELOPE_SENDER | Some n \<Rightarrow> n \<noteq> 0);
          from_hdr = msg_get_default msg ''from'' [];
          sender_hdr = msg_get_default msg ''sender'' []
      in if senderfirst
         then (if sender_hdr \<noteq> [] then sender_hdr else from_hdr)
         else (if from_hdr \<noteq> [] then from_hdr else sender_hdr))"

text \<open>Collaborators that never fail, on a site that looks at the envelope sender first.\<close>

definition demo_env :: env where
  "demo_env =
     \<lparr>get_sender = demo_get_sender True,
      has_matching_bounce_header = (\<lambda>mlist msg. msg_get msg ''x-spam'' \<noteq> None),
      hold_message = (\<lambda>mlist msg md reason. Inr 7),
      pendings_add = (\<lambda>pendable. Inr ''tok123''),
      autorespond_to_sender = (\<lambda>mlist sender lang. True),
      send = (\<lambda>nmsg tomoderators. None),
      GetCharSet = (\<lambda>lang. ''us-ascii''),
      oneline = (\<lambda>s charset. s),
      wrap = (\<lambda>s. s),
      translate = (\<lambda>lang s vars. s),
      formatdate = ''Tue, 03 Nov 2026 10:00:00 +0000'',
      make_msgid = ''<20261103100000.1@example.com>''\<rparr>"

definition demo_list :: mailing_list where
  "demo_list =
     \<lparr>list_name = ''test'',
      host_name = ''example.com'',
      owner_address = ''test-owner@example.com'',
      bounces_address = ''test-bounces@example.com'',
      request_address = ''test-request@example.com'',
      preferred_language = ''en'',
      admin_immed_notify = True,
      respond_to_post_requests = True,
      bounce_matching_headers = ''x-spam: yes'',
      script_url = (\<lambda>name. ''http://example.com/mailman/'' @ name @ ''/test''),
      get_member = (\<lambda>address. None)\<rparr>"

definition demo_msg :: message where
  "demo_msg =
     \<lparr>headers = [(''From'', ''alice@example.com''),
                 (''Subject'', ''Hello''),
                 (''Message-ID'', ''<m1@example.com>''),
                 (''X-Spam'', ''yes'')]\<rparr>"




text \<open>
  The same collaborators with one of them out of order: a mail sender that fails
  on the notice to the poster, and a pending store that is down.
\<close>

definition poster_send_fails_env :: env where
  "poster_send_fails_env =
     demo_env\<lparr>send := (\<lambda>nmsg tomoderators.
        if tomoderators then None else Some ''connection refused'')\<rparr>"

definition store_down_env :: env where
  "store_down_env = demo_env\<lparr>pendings_add := (\<lambda>pendable. Inl ''store down'')\<rparr>"

text \<open>The same collaborators with a translator that marks each text with its language.\<close>

definition tagging_env :: env where
  "tagging_env = demo_env\<lparr>translate := (\<lambda>lang s vars. lang @ '': '' @ s)\<rparr>"

text \<open>Two bulk messages: one says X-Ack: no, the other X-Ack: YES.\<close>

definition bulk_no_msg :: message where
  "bulk_no_msg = \<lparr>headers = [(''X-Ack'', ''no''), (''Precedence'', ''bulk'')]\<rparr>"

definition bulk_yes_msg :: message where
  "bulk_yes_msg = \<lparr>headers = [(''X-Ack'', ''YES''), (''Precedence'', ''Bulk'')]\<rparr>"

definition demo_state :: state where
  "demo_state = \<lparr>msgdata = Map.empty, language = ''en'', trace = []\<rparr>"

text \<open>The same state with a language recorded in the metadata, and with an approval.\<close>

definition french_state :: state where
  "french_state = demo_state\<lparr>msgdata := [''lang'' \<mapsto> PStr ''fr'']\<rparr>"

definition approved_state :: state where
  "approved_state = demo_state\<lparr>msgdata := [''approved'' \<mapsto> PInt 1]\<rparr>"

text \<open>
  \<open>int()\<close> on a string, for the examples: blanks around the number are stripped,
  then come an optional sign and decimal digits.
\<close>

definition is_space :: "char \<Rightarrow> bool" where
  "is_space c = (c \<in> set [CHR '' '', CHR 0x09, CHR 0x0A, CHR 0x0B, CHR 0x0C, CHR 0x0D])"

definition strip :: "string \<Rightarrow> string" where
  "strip s = rev (dropWhile is_space (rev (dropWhile is_space s)))"

fun decimal_value :: "string \<Rightarrow> int \<Rightarrow> int option" where
  "decimal_value [] acc = Some acc"
| "decimal_value (c # cs) acc =
     (case map_of (zip ''0123456789'' [0, 1, 2, 3, 4, 5, 6, 7, 8, 9]) c of
        None \<Rightarrow> None
      | Some d \<Rightarrow> decimal_value cs (10 * acc + d))"

definition demo_int :: "string \<Rightarrow> int option" where
  "demo_int s =
     (let t = strip s
      in case t of
           [] \<Rightarrow> None
         | c # cs \<Rightarrow>
             if c = CHR ''-''
             then (if cs = [] then None else map_option uminus (decimal_value cs 0))
             else if c = CHR ''+'' then (if cs = [] then None else decimal_value cs 0)
             else decimal_value t 0)"

text \<open>
  A list object, a form with one topic and a bad \<open>topics_enabled\<close>, and the same
  form with \<open>topics_bodylines_limit\<close> sent twice.
\<close>

definition demo_maillist :: maillist where
  "demo_maillist = \<lparr>topics = [], topics_enabled = 1, topics_bodylines_limit = 5\<rparr>"

definition demo_form :: cgidata where
  "demo_form =
     [(''topic_box_01'', Str ''announce''),
      (''topic_rebox_01'', Str ''ANN.*''),
      (''topics_enabled'', Str ''abc''),
      (''topics_bodylines_limit'', Str ''7'')]"

definition repeated_form :: cgidata where
  "repeated_form =
     [(''topic_box_01'', Str ''announce''),
      (''topic_rebox_01'', Str ''ANN.*''),
      (''topics_enabled'', Str ''abc''),
      (''topics_bodylines_limit'', Lst [''7'', ''8''])]"

section \<open>Facts about case folding and header lookup\<close>

lemma length_uppercase: "length uppercase = length lowercase"
  by (simp add: uppercase_def lowercase_def)

lemma lower_char_not_upper: "lower_char c \<notin> set uppercase"
proof (cases "map_of (zip uppercase lowercase) c")
  case None
  then have "c \<notin> set uppercase"
    using map_of_zip_is_None[OF length_uppercase] by blast
  with None show ?thesis by (simp add: lower_char_def)
next
  case (Some d)
  then have "d \<in> set lowercase"
    by (meson in_set_zipE map_of_SomeD)
  moreover have "set lowercase \<inter> set uppercase = {}"
    by (simp add: uppercase_def lowercase_def)
  ultimately show ?thesis using Some by (auto simp: lower_char_def)
qed

lemma lower_char_fixed: "c \<notin> set uppercase \<Longrightarrow> lower_char c = c"
  using map_of_zip_is_None[OF length_uppercase, of c] by (simp add: lower_char_def)

lemma lower_char_idem: "lower_char (lower_char c) = lower_char c"
  by (rule lower_char_fixed[OF lower_char_not_upper])

lemma lower_idem: "lower (lower s) = lower s"
  by (simp add: lower_def lower_char_idem)

lemma distinct_uppercase: "distinct (map fst (zip uppercase lowercase))"
  by (simp add: uppercase_def lowercase_def)

lemma same_letter_lower:
  assumes "lower_char d = d"
  shows "same_letter c d \<longleftrightarrow> lower_char c = d"
proof -
  have d: "d \<notin> set uppercase" using assms lower_char_not_upper[of d] by simp
  then have nd: "(d, c) \<notin> set (zip uppercase lowercase)" by (meson in_set_zipE)
  show ?thesis
  proof (cases "map_of (zip uppercase lowercase) c")
    case None
    then have "c \<notin> set uppercase"
      using map_of_zip_is_None[OF length_uppercase] by blast
    then have "(c, d) \<notin> set (zip uppercase lowercase)" by (meson in_set_zipE)
    with None nd show ?thesis by (simp add: same_letter_def lower_char_def)
  next
    case (Some e)
    then have ce: "(c, e) \<in> set (zip uppercase lowercase)" by (rule map_of_SomeD)
    then have "c \<in> set uppercase" by (meson in_set_zipE)
    with d have "c \<noteq> d" by auto
    moreover have "(c, d) \<in> set (zip uppercase lowercase) \<longleftrightarrow> e = d"
      using map_of_eq_Some_iff[OF distinct_uppercase, of c d] Some by auto
    ultimately show ?thesis using Some nd by (simp add: same_letter_def lower_char_def)
  qed
qed

lemma caseless_eq_lower: "lower t = t \<Longrightarrow> caseless_eq s t \<longleftrightarrow> lower s = t"
proof (induction s arbitrary: t)
  case Nil
  then show ?case by (auto simp: caseless_eq_def lower_def)
next
  case (Cons c s)
  show ?case
  proof (cases t)
    case Nil
    then show ?thesis by (simp add: caseless_eq_def lower_def)
  next
    case (Cons d t')
    with Cons.prems have "lower_char d = d" "lower t' = t'" by (simp_all add: lower_def)
    then show ?thesis
      using Cons.IH[of t'] same_letter_lower[of d c] Cons
      by (simp add: caseless_eq_def lower_def)
  qed
qed

lemma lower_words:
  "lower ''yes'' = ''yes''" "lower ''bulk'' = ''bulk''" "lower ''junk'' = ''junk''"
  "lower ''list'' = ''list''" "lower ''x-ack'' = ''x-ack''"
  "lower ''precedence'' = ''precedence''"
  by (simp_all add: lower_def lower_char_def uppercase_def lowercase_def)

lemma lower_Nil: "lower [] = []"
  by (simp add: lower_def)

lemma ackp_zero_iff: "ackp msg = 0 \<longleftrightarrow> \<not> x_ack_is_yes msg \<and> precedence_is_bulk msg"
  by (auto simp: ackp_def Let_def x_ack_is_yes_def precedence_is_bulk_def msg_get_default_def
      caseless_eq_lower lower_words lower_Nil split: option.splits)

lemma ackp_range: "ackp msg = 0 \<or> ackp msg = 1"
  by (simp add: ackp_def Let_def)

lemma first_header_lowered:
  assumes "lower name = ''x-ack'' \<or> lower name = ''precedence''"
  shows "first_header
           (map (\<lambda>(k, v). if lower k = ''x-ack'' \<or> lower k = ''precedence''
                           then (k, lower v) else (k, v)) hs) name
         = map_option lower (first_header hs name)"
  using assms by (induction hs) auto

lemma msg_get_lowered:
  "msg_get (lower_ack_precedence msg) ''x-ack'' = map_option lower (msg_get msg ''x-ack'')"
  "msg_get (lower_ack_precedence msg) ''precedence''
     = map_option lower (msg_get msg ''precedence'')"
  by (simp_all add: msg_get_def lower_ack_precedence_def first_header_lowered lower_words)

lemma msg_get_default_lowered:
  "lower (msg_get_default (lower_ack_precedence msg) ''x-ack'' [])
     = lower (msg_get_default msg ''x-ack'' [])"
  "lower (msg_get_default (lower_ack_precedence msg) ''precedence'' [])
     = lower (msg_get_default msg ''precedence'' [])"
  by (simp_all add: msg_get_default_def msg_get_lowered lower_idem split: option.splits)

section \<open>Facts about hold_for_approval\<close>

lemma normalize_exc_error: "normalize_exc x = Inl err \<Longrightarrow> err = TypeError"
proof (cases x)
  case (Class c)
  assume "normalize_exc x = Inl err"
  with Class show ?thesis by (cases c) auto
qed auto

lemma fromusenet_kept:
  "dict_get (md(''rejection_notice'' \<mapsto> v)) ''fromusenet'' PNone
     = dict_get md ''fromusenet'' PNone"
  by (simp add: dict_get_def)

text \<open>The four conditions, in the terms that \<open>hold_for_approval\<close> computes.\<close>

lemma sender_gate_code:
  "sender_gate env mlist msg md =
     (\<not> truthy (dict_get md ''fromusenet'' PNone) \<and> ackp msg \<noteq> 0
      \<and> respond_to_post_requests mlist
      \<and> autorespond_to_sender env mlist (effective_sender env msg md)
           (response_language mlist (effective_sender env msg md)))"
  by (simp add: sender_gate_def effective_sender_def response_language_def dict_get_def Let_def)

text \<open>
  A run that ends with the hold reason has passed every collaborator, and its
  effects are \<open>held_effects\<close>.
\<close>

lemma hold_for_approval_held:
  assumes run: "hold_for_approval env mlist msg s x = (s', Raised (HoldMessage e))"
  shows "\<exists>held_id token.
     normalize_exc x = Inr e \<and>
     hold_message env mlist msg
       ((msgdata s)(''rejection_notice'' \<mapsto>
          PStr (wrap env (rejection_notice env (language s) e mlist))))
       (wrap env (reason_notice env (language s) e)) = Inr held_id \<and>
     pendings_add env (HeldMessagePendable held_id) = Inr token \<and>
     language s' = language s \<and>
     trace s' = trace s @ held_effects env mlist msg s e held_id token"
proof (cases "normalize_exc x")
  case (Inl err)
  with run normalize_exc_error[OF Inl] show ?thesis by (simp add: hold_for_approval_def)
next
  case (Inr e')
  with run have e': "e' = e"
    by (auto simp: hold_for_approval_def Let_def
        split: sum.splits option.splits if_splits prod.splits)
  note n = Inr[unfolded e']
  let ?md = "(msgdata s)(''rejection_notice'' \<mapsto>
          PStr (wrap env (rejection_notice env (language s) e mlist)))"
  let ?reason = "wrap env (reason_notice env (language s) e)"
  show ?thesis
  proof (cases "hold_message env mlist msg ?md ?reason")
    case (Inl err)
    with run n show ?thesis
      by (simp add: hold_for_approval_def Let_def)
  next
    case (Inr held_id)
    note h = this
    show ?thesis
    proof (cases "pendings_add env (HeldMessagePendable held_id)")
      case (Inl err)
      with run n h show ?thesis
        by (simp add: hold_for_approval_def Let_def emit_def)
    next
      case (Inr token)
      with run n h show ?thesis
        by (auto simp: hold_for_approval_def held_effects_def Let_def emit_def sender_gate_code
            fromusenet_kept notify_sender_def notify_owners_def
            split: if_splits option.splits)
    qed
  qed
qed

lemma held_emitted:
  assumes "snd (hold_for_approval env mlist msg s x) = Raised (HoldMessage e)"
  obtains held_id token where
    "normalize_exc x = Inr e"
    "pendings_add env (HeldMessagePendable held_id) = Inr token"
    "emitted s (fst (hold_for_approval env mlist msg s x))
       = held_effects env mlist msg s e held_id token"
proof -
  from assms have "hold_for_approval env mlist msg s x
      = (fst (hold_for_approval env mlist msg s x), Raised (HoldMessage e))"
    by (cases "hold_for_approval env mlist msg s x") simp
  from hold_for_approval_held[OF this] that show thesis
    by (auto simp: emitted_def)
qed

lemma hold_for_approval_not_returned:
  "snd (hold_for_approval env mlist msg s x) \<noteq> Returned"
  by (auto simp: hold_for_approval_def Let_def
      split: sum.splits option.splits if_splits prod.splits)

text \<open>The class \<open>MessageTooBig\<close> cannot be instantiated without arguments: nothing happens.\<close>

lemma too_big_class_run:
  "hold_for_approval env mlist msg s (Class MessageTooBig) = (s, Raised TypeError)"
  by (simp add: hold_for_approval_def)

text \<open>Whatever way a run ends, it has sent no notice that its condition does not allow.\<close>

lemma notices_at_most:
  "length (owner_notices (emitted s (fst (hold_for_approval env mlist msg s exc))))
      \<le> (if admin_immed_notify mlist then 1 else 0)
   \<and> length (sender_notices (emitted s (fst (hold_for_approval env mlist msg s exc))))
      \<le> (if sender_gate env mlist msg (msgdata s) then 1 else 0)"
  by (auto simp: hold_for_approval_def Let_def emitted_def emit_def notify_sender_def
      notify_owners_def sender_gate_code fromusenet_kept
      split: sum.splits option.splits if_splits prod.splits)


text \<open>
  The effects of any run, by the place where it ends: before the hold is
  registered, between the hold registrar and the pending store, at a failing
  \<open>send\<close>, or at the last line.
\<close>

lemma run_shapes:
  "(\<exists>err. normalize_exc x = Inl err
      \<and> emitted s (fst (hold_for_approval env mlist msg s x)) = [])
   \<or> (\<exists>e. normalize_exc x = Inr e \<and>
        ((\<exists>err. hold_message env mlist msg
             ((msgdata s)(''rejection_notice'' \<mapsto>
                PStr (wrap env (rejection_notice env (language s) e mlist))))
             (wrap env (reason_notice env (language s) e)) = Inl err)
           \<and> emitted s (fst (hold_for_approval env mlist msg s x)) = []
         \<or> (\<exists>held_id. hold_message env mlist msg
               ((msgdata s)(''rejection_notice'' \<mapsto>
                  PStr (wrap env (rejection_notice env (language s) e mlist))))
               (wrap env (reason_notice env (language s) e)) = Inr held_id \<and>
             ((\<exists>err. pendings_add env (HeldMessagePendable held_id) = Inl err)
                \<and> emitted s (fst (hold_for_approval env mlist msg s x))
                    = [Hold_message
                         ((msgdata s)(''rejection_notice'' \<mapsto>
                            PStr (wrap env (rejection_notice env (language s) e mlist))))
                         (wrap env (reason_notice env (language s) e))]
              \<or> (\<exists>token. pendings_add env (HeldMessagePendable held_id) = Inr token \<and>
                   (emitted s (fst (hold_for_approval env mlist msg s x))
                      = take 2 (held_effects env mlist msg s e held_id token)
                    \<or> emitted s (fst (hold_for_approval env mlist msg s x))
                      = take (if sender_gate env mlist msg (msgdata s) then 3 else 2)
                          (held_effects env mlist msg s e held_id token)
                    \<or> emitted s (fst (hold_for_approval env mlist msg s x))
                        = held_effects env mlist msg s e held_id token
                      \<and> snd (hold_for_approval env mlist msg s x)
                          = Raised (HoldMessage e)))))))"
proof (cases "normalize_exc x")
  case (Inl err)
  then show ?thesis by (simp add: hold_for_approval_def emitted_def)
next
  case (Inr e)
  let ?md = "(msgdata s)(''rejection_notice'' \<mapsto>
                PStr (wrap env (rejection_notice env (language s) e mlist)))"
  let ?reason = "wrap env (reason_notice env (language s) e)"
  note n = Inr
  show ?thesis
  proof (cases "hold_message env mlist msg ?md ?reason")
    case (Inl err)
    with n show ?thesis by (simp add: hold_for_approval_def Let_def emitted_def)
  next
    case (Inr held_id)
    note h = this
    show ?thesis
    proof (cases "pendings_add env (HeldMessagePendable held_id)")
      case (Inl err)
      with n h show ?thesis
        by (simp add: hold_for_approval_def Let_def emitted_def emit_def)
    next
      case (Inr token)
      with n h show ?thesis
        by (auto simp: hold_for_approval_def held_effects_def Let_def emit_def emitted_def
            sender_gate_code fromusenet_kept notify_sender_def notify_owners_def
            split: if_splits option.splits)
    qed
  qed
qed

text \<open>When the reason normalizes and no collaborator fails, the run reaches its last line.\<close>

lemma collaborators_complete:
  assumes "normalize_exc x = Inr e" and "collaborators_succeed env mlist msg s e"
  shows "snd (hold_for_approval env mlist msg s x) = Raised (HoldMessage e)"
proof -
  let ?md = "(msgdata s)(''rejection_notice'' \<mapsto>
                PStr (wrap env (rejection_notice env (language s) e mlist)))"
  let ?reason = "wrap env (reason_notice env (language s) e)"
  from assms(2) obtain held_id where
    h: "hold_message env mlist msg ?md ?reason = Inr held_id"
    by (auto simp: collaborators_succeed_def Let_def split: sum.splits)
  from assms(2) h obtain token where
    p: "pendings_add env (HeldMessagePendable held_id) = Inr token"
    by (auto simp: collaborators_succeed_def Let_def split: sum.splits)
  from assms(2) h p show ?thesis
    by (auto simp: hold_for_approval_def collaborators_succeed_def assms(1) Let_def emit_def
        sender_gate_code fromusenet_kept notify_sender_def notify_owners_def
        split: if_splits option.splits)
qed

text \<open>What every run has in common, however it ends.\<close>

lemma registration_one:
  assumes "normalize_exc x = Inr e" and "registration_succeeds env mlist msg s e"
  shows "length (pendings_added (emitted s (fst (hold_for_approval env mlist msg s x)))) = 1"
  using run_shapes[of x s env mlist msg] assms
  by (auto simp: registration_succeeds_def held_effects_def Let_def
      split: sum.splits if_splits)

lemma tokens_every_run:
  "length (pendings_added (emitted s (fst (hold_for_approval env mlist msg s x)))) \<le> 1
   \<and> (pendings_added (emitted s (fst (hold_for_approval env mlist msg s x))) = []
        \<longrightarrow> sender_notices (emitted s (fst (hold_for_approval env mlist msg s x))) = []
          \<and> owner_notices (emitted s (fst (hold_for_approval env mlist msg s x))) = [])
   \<and> list_all
        (\<lambda>pendable. \<exists>token. pendings_add env pendable = Inr token
           \<and> list_all
               (\<lambda>n. confirm_url n = Some (PStr (script_url mlist ''confirm'' @ ''/'' @ token)))
               (sender_notices (emitted s (fst (hold_for_approval env mlist msg s x))))
           \<and> list_all (\<lambda>n. control_subject n = Some (''confirm '' @ token))
               (owner_notices (emitted s (fst (hold_for_approval env mlist msg s x)))))
        (pendings_added (emitted s (fst (hold_for_approval env mlist msg s x))))"
  using run_shapes[of x s env mlist msg]
  by (auto simp: held_effects_def Let_def confirm_url_def control_subject_def
      sender_notice_def owner_notice_def split: if_splits)

lemma log_only_at_end:
  "length (log_lines (emitted s (fst (hold_for_approval env mlist msg s x)))) \<le> 1
   \<and> (log_lines (emitted s (fst (hold_for_approval env mlist msg s x))) \<noteq> []
        \<longrightarrow> (\<exists>e. normalize_exc x = Inr e
              \<and> snd (hold_for_approval env mlist msg s x) = Raised (HoldMessage e)))"
  using run_shapes[of x s env mlist msg]
  by (auto simp: held_effects_def Let_def split: if_splits)

text \<open>
  The language of the notice to the poster, in every run: the \<open>lang\<close> entry of the
  metadata when there is one; without it, the member's language or the list's, as
  the comment at lines 215 to 217 says.
\<close>

lemma poster_language_every_run:
  "list_all
     (\<lambda>n. n_lang n = (case msgdata s ''lang'' of
                         Some l \<Rightarrow> l
                       | None \<Rightarrow> response_language mlist (effective_sender env msg (msgdata s)))
          \<and> rendered_language n = Some (n_lang n))
     (sender_notices (emitted s (fst (hold_for_approval env mlist msg s x))))"
  using run_shapes[of x s env mlist msg]
  by (auto simp: held_effects_def Let_def sender_notice_def rendered_language_def dict_get_def
      split: option.splits if_splits)

section \<open>Facts about HandleForm\<close>

lemma set_topics_enabled_single:
  assumes "single_valued cgidata ''topics_enabled''"
  shows "\<exists>mlist'. set_topics_enabled int_of_str cgidata mlist = Inr mlist'
     \<and> topics mlist' = topics mlist
     \<and> topics_bodylines_limit mlist' = topics_bodylines_limit mlist
     \<and> (\<forall>s. getvalue cgidata ''topics_enabled'' = Some (Str s) \<and> int_of_str s = None
           \<longrightarrow> topics_enabled mlist' = topics_enabled mlist)"
  using assms
  by (auto simp: set_topics_enabled_def int_getvalue_def py_int_def single_valued_def
      split: option.splits cgival.splits)

lemma set_topics_bodylines_limit_single:
  assumes "single_valued cgidata ''topics_bodylines_limit''"
  shows "\<exists>mlist'. set_topics_bodylines_limit int_of_str cgidata mlist = Inr mlist'
     \<and> topics mlist' = topics mlist
     \<and> topics_enabled mlist' = topics_enabled mlist
     \<and> (\<forall>s. getvalue cgidata ''topics_bodylines_limit'' = Some (Str s) \<and> int_of_str s = None
           \<longrightarrow> topics_bodylines_limit mlist' = topics_bodylines_limit mlist)"
  using assms
  by (auto simp: set_topics_bodylines_limit_def int_getvalue_def py_int_def single_valued_def
      split: option.splits cgival.splits)

lemma demo_form_single:
  "single_valued demo_form ''topics_enabled''
   \<and> single_valued demo_form ''topics_bodylines_limit''
   \<and> getvalue demo_form ''topics_enabled'' = Some (Str ''abc'')
   \<and> demo_int ''abc'' = None"
  by code_simp

section \<open>Concrete runs\<close>

text \<open>The concrete runs that the examples below rest on.\<close>

lemma demo_succeeds:
  "normalize_exc (Class ModeratedPost) = Inr ModeratedPost_inst
   \<and> collaborators_succeed demo_env demo_list demo_msg demo_state ModeratedPost_inst"
  by code_simp

lemma demo_registers:
  "normalize_exc (Class ModeratedPost) = Inr ModeratedPost_inst
   \<and> registration_succeeds demo_env demo_list demo_msg demo_state ModeratedPost_inst"
  by code_simp

lemma too_big_succeeds:
  "normalize_exc (Instance (MessageTooBig_inst 50000 40)) = Inr (MessageTooBig_inst 50000 40)
   \<and> collaborators_succeed demo_env demo_list demo_msg demo_state (MessageTooBig_inst 50000 40)"
  by code_simp


text \<open>
  The table of the specification: \<open>ackp\<close> on X-Ack in yes, no, absent and
  Precedence in bulk, junk, list, absent.
\<close>

lemma ackp_table:
  "ackp \<lparr>headers = [(''X-Ack'', ''yes''), (''Precedence'', ''bulk'')]\<rparr> = 1"
  "ackp \<lparr>headers = [(''X-Ack'', ''yes''), (''Precedence'', ''junk'')]\<rparr> = 1"
  "ackp \<lparr>headers = [(''X-Ack'', ''yes''), (''Precedence'', ''list'')]\<rparr> = 1"
  "ackp \<lparr>headers = [(''X-Ack'', ''yes'')]\<rparr> = 1"
  "ackp \<lparr>headers = [(''X-Ack'', ''no''), (''Precedence'', ''bulk'')]\<rparr> = 0"
  "ackp \<lparr>headers = [(''X-Ack'', ''no''), (''Precedence'', ''junk'')]\<rparr> = 0"
  "ackp \<lparr>headers = [(''X-Ack'', ''no''), (''Precedence'', ''list'')]\<rparr> = 0"
  "ackp \<lparr>headers = [(''X-Ack'', ''no'')]\<rparr> = 1"
  "ackp \<lparr>headers = [(''Precedence'', ''bulk'')]\<rparr> = 0"
  "ackp \<lparr>headers = [(''Precedence'', ''junk'')]\<rparr> = 0"
  "ackp \<lparr>headers = [(''Precedence'', ''list'')]\<rparr> = 0"
  "ackp \<lparr>headers = []\<rparr> = 1"
  by code_simp+

section \<open>The claims\<close>

text \<open>
  C1.  When the metadata maps \<open>approved\<close> to a true value, \<open>process\<close> returns
  normally and leaves the state as it found it: no \<open>hold_message\<close>, no pending
  record, no notice, no log line, whatever the list, the message and the
  collaborators are.
\<close>

theorem process_approved:
  assumes "msgdata s ''approved'' = Some v" and "truthy v"
  shows "process env mlist msg s = (s, Returned)
       \<and> emitted s (fst (process env mlist msg s)) = []"
  using assms by (simp add: process_def dict_get_def emitted_def)

theorem process_approved_witness:
  "msgdata approved_state ''approved'' = Some (PInt 1)
   \<and> truthy (PInt 1)
   \<and> process demo_env demo_list demo_msg approved_state = (approved_state, Returned)
   \<and> emitted approved_state (fst (process demo_env demo_list demo_msg approved_state)) = []"
proof -
  have h1: "msgdata approved_state ''approved'' = Some (PInt 1)"
    by (simp add: approved_state_def)
  have h2: "truthy (PInt 1)" by simp
  show ?thesis
    using h1 h2 process_approved[OF h1 h2, of demo_env demo_list demo_msg] by blast
qed

text \<open>
  C2, as amended.  In every run of \<open>hold_for_approval\<close>, a notice goes to the
  owners and moderators only when \<open>admin_immed_notify\<close> is true, and a notice goes
  to the poster only when \<open>fromusenet\<close> is unset or false, \<open>ackp(msg)\<close> is true,
  \<open>respond_to_post_requests\<close> is true and \<open>autorespond_to_sender(mlist, sender,
  lang)\<close> is true; there is at most one of each.  In every run in which the reason
  can be instantiated and neither \<open>hold_message\<close> nor the pending store nor \<open>send\<close>
  fails, each notice is sent exactly when its condition holds.
\<close>

theorem notifications_gated:
  "length (owner_notices (emitted s (fst (hold_for_approval env mlist msg s exc))))
      \<le> (if admin_immed_notify mlist then 1 else 0)
   \<and> length (sender_notices (emitted s (fst (hold_for_approval env mlist msg s exc))))
      \<le> (if sender_gate env mlist msg (msgdata s) then 1 else 0)
   \<and> (normalize_exc exc = Inr e \<and> collaborators_succeed env mlist msg s e
      \<longrightarrow> length (owner_notices (emitted s (fst (hold_for_approval env mlist msg s exc))))
            = (if admin_immed_notify mlist then 1 else 0)
        \<and> length (sender_notices (emitted s (fst (hold_for_approval env mlist msg s exc))))
            = (if sender_gate env mlist msg (msgdata s) then 1 else 0))"
proof -
  have "normalize_exc exc = Inr e \<and> collaborators_succeed env mlist msg s e
      \<longrightarrow> length (owner_notices (emitted s (fst (hold_for_approval env mlist msg s exc))))
            = (if admin_immed_notify mlist then 1 else 0)
        \<and> length (sender_notices (emitted s (fst (hold_for_approval env mlist msg s exc))))
            = (if sender_gate env mlist msg (msgdata s) then 1 else 0)"
  proof
    assume "normalize_exc exc = Inr e \<and> collaborators_succeed env mlist msg s e"
    then have "snd (hold_for_approval env mlist msg s exc) = Raised (HoldMessage e)"
      by (simp add: collaborators_complete)
    then obtain held_id token where
      "emitted s (fst (hold_for_approval env mlist msg s exc))
         = held_effects env mlist msg s e held_id token"
      by (rule held_emitted)
    then show "length (owner_notices (emitted s (fst (hold_for_approval env mlist msg s exc))))
            = (if admin_immed_notify mlist then 1 else 0)
        \<and> length (sender_notices (emitted s (fst (hold_for_approval env mlist msg s exc))))
            = (if sender_gate env mlist msg (msgdata s) then 1 else 0)"
      by (simp add: held_effects_def Let_def)
  qed
  with notices_at_most[of s env mlist msg exc] show ?thesis by blast
qed

theorem notifications_gated_witness:
  "normalize_exc (Class ModeratedPost) = Inr ModeratedPost_inst
   \<and> collaborators_succeed demo_env demo_list demo_msg demo_state ModeratedPost_inst
   \<and> admin_immed_notify demo_list
   \<and> sender_gate demo_env demo_list demo_msg (msgdata demo_state)
   \<and> length (owner_notices (emitted demo_state
        (fst (hold_for_approval demo_env demo_list demo_msg demo_state (Class ModeratedPost)))))
       = 1
   \<and> length (sender_notices (emitted demo_state
        (fst (hold_for_approval demo_env demo_list demo_msg demo_state (Class ModeratedPost)))))
       = 1"
proof -
  have g: "sender_gate demo_env demo_list demo_msg (msgdata demo_state)"
    by code_simp
  have a: "admin_immed_notify demo_list" by (simp add: demo_list_def)
  show ?thesis
    using demo_succeeds g a
      notifications_gated[of demo_state demo_env demo_list demo_msg "Class ModeratedPost"
        ModeratedPost_inst]
    by simp
qed

text \<open>
  C2 as the specification states it fails: \<open>admin_immed_notify\<close> is true, \<open>send\<close>
  fails on the notice to the poster, the failure leaves \<open>hold_for_approval\<close>, and
  no notice goes to the owners.
\<close>

theorem notifications_gated_counterexample:
  "admin_immed_notify demo_list
   \<and> sender_gate poster_send_fails_env demo_list demo_msg (msgdata demo_state)
   \<and> snd (hold_for_approval poster_send_fails_env demo_list demo_msg demo_state
        (Class ModeratedPost)) = Raised (CollaboratorError ''connection refused'')
   \<and> length (owner_notices (emitted demo_state
        (fst (hold_for_approval poster_send_fails_env demo_list demo_msg demo_state
           (Class ModeratedPost))))) = 0
   \<and> length (sender_notices (emitted demo_state
        (fst (hold_for_approval poster_send_fails_env demo_list demo_msg demo_state
           (Class ModeratedPost))))) = 0"
  by code_simp

text \<open>
  C3, as amended.  Every run of \<open>hold_for_approval\<close> obtains at most one token
  from the pending store, and sends no notice without having obtained it; the
  token that the store returned is the last segment of the \<open>confirmurl\<close> in the
  notice to the poster and follows \<open>confirm\<close> in the Subject of the control message
  in the notice to the owners, whenever these notices are sent.  A run in which
  the reason can be instantiated and neither \<open>hold_message\<close> nor the pending store
  fails obtains exactly one token.
\<close>

theorem one_token:
  "length (pendings_added (emitted s (fst (hold_for_approval env mlist msg s exc)))) \<le> 1
   \<and> (pendings_added (emitted s (fst (hold_for_approval env mlist msg s exc))) = []
        \<longrightarrow> sender_notices (emitted s (fst (hold_for_approval env mlist msg s exc))) = []
          \<and> owner_notices (emitted s (fst (hold_for_approval env mlist msg s exc))) = [])
   \<and> list_all
        (\<lambda>pendable. \<exists>token. pendings_add env pendable = Inr token
           \<and> list_all
               (\<lambda>n. confirm_url n = Some (PStr (script_url mlist ''confirm'' @ ''/'' @ token)))
               (sender_notices (emitted s (fst (hold_for_approval env mlist msg s exc))))
           \<and> list_all (\<lambda>n. control_subject n = Some (''confirm '' @ token))
               (owner_notices (emitted s (fst (hold_for_approval env mlist msg s exc)))))
        (pendings_added (emitted s (fst (hold_for_approval env mlist msg s exc))))
   \<and> (normalize_exc exc = Inr e \<and> registration_succeeds env mlist msg s e
        \<longrightarrow> length (pendings_added (emitted s (fst (hold_for_approval env mlist msg s exc))))
              = 1)"
  using tokens_every_run[of s env mlist msg exc] registration_one[of exc e env mlist msg s]
  by blast

theorem one_token_witness:
  "normalize_exc (Class ModeratedPost) = Inr ModeratedPost_inst
   \<and> registration_succeeds demo_env demo_list demo_msg demo_state ModeratedPost_inst
   \<and> length (pendings_added (emitted demo_state
        (fst (hold_for_approval demo_env demo_list demo_msg demo_state (Class ModeratedPost)))))
       = 1
   \<and> list_all
        (\<lambda>pendable. \<exists>token. pendings_add demo_env pendable = Inr token
           \<and> list_all
               (\<lambda>n. confirm_url n
                      = Some (PStr (script_url demo_list ''confirm'' @ ''/'' @ token)))
               (sender_notices (emitted demo_state
                  (fst (hold_for_approval demo_env demo_list demo_msg demo_state
                     (Class ModeratedPost)))))
           \<and> list_all (\<lambda>n. control_subject n = Some (''confirm '' @ token))
               (owner_notices (emitted demo_state
                  (fst (hold_for_approval demo_env demo_list demo_msg demo_state
                     (Class ModeratedPost))))))
        (pendings_added (emitted demo_state
           (fst (hold_for_approval demo_env demo_list demo_msg demo_state
              (Class ModeratedPost)))))
   \<and> map confirm_url (sender_notices (emitted demo_state
        (fst (hold_for_approval demo_env demo_list demo_msg demo_state (Class ModeratedPost)))))
       = [Some (PStr ''http://example.com/mailman/confirm/test/tok123'')]
   \<and> map control_subject (owner_notices (emitted demo_state
        (fst (hold_for_approval demo_env demo_list demo_msg demo_state (Class ModeratedPost)))))
       = [Some ''confirm tok123'']"
proof -
  have c: "map confirm_url (sender_notices (emitted demo_state
        (fst (hold_for_approval demo_env demo_list demo_msg demo_state (Class ModeratedPost)))))
       = [Some (PStr ''http://example.com/mailman/confirm/test/tok123'')]
   \<and> map control_subject (owner_notices (emitted demo_state
        (fst (hold_for_approval demo_env demo_list demo_msg demo_state (Class ModeratedPost)))))
       = [Some ''confirm tok123'']"
    by code_simp
  show ?thesis
    using demo_registers c
      one_token[of demo_state demo_env demo_list demo_msg "Class ModeratedPost"
        ModeratedPost_inst]
    by blast
qed

text \<open>
  C3 as the specification states it fails: with the pending store down the run
  obtains no token, and neither does a run that is handed the class
  \<open>MessageTooBig\<close>, which cannot be instantiated without arguments.
\<close>

theorem one_token_counterexample:
  "snd (hold_for_approval store_down_env demo_list demo_msg demo_state (Class ModeratedPost))
     = Raised (CollaboratorError ''store down'')
   \<and> length (pendings_added (emitted demo_state
        (fst (hold_for_approval store_down_env demo_list demo_msg demo_state
           (Class ModeratedPost))))) = 0
   \<and> snd (hold_for_approval demo_env demo_list demo_msg demo_state (Class MessageTooBig))
       = Raised TypeError
   \<and> length (pendings_added (emitted demo_state
        (fst (hold_for_approval demo_env demo_list demo_msg demo_state
           (Class MessageTooBig))))) = 0"
  by code_simp

text \<open>
  C4.  \<open>ackp(msg)\<close> returns 0, the false value, exactly when the X-Ack header is
  absent or differs from \<open>yes\<close> also when letter case is ignored, and the
  Precedence header is \<open>bulk\<close>, \<open>junk\<close> or \<open>list\<close> when letter case is ignored; in
  every other case it returns 1.
\<close>

theorem ackp_false_iff:
  "(ackp msg = 0) = (\<not> x_ack_is_yes msg \<and> precedence_is_bulk msg)
   \<and> (ackp msg = 0 \<or> ackp msg = 1)"
  using ackp_zero_iff[of msg] ackp_range[of msg] by blast

text \<open>
  C5, as amended.  It is \<open>X-Ack: yes\<close>, in any letter case, that keeps the bulk
  check from suppressing the notice: then \<open>ackp\<close> returns 1 whatever the
  Precedence header says.  A message with \<open>X-Ack: no\<close> and a Precedence of
  \<open>bulk\<close>, \<open>junk\<close> or \<open>list\<close> gets 0.
\<close>

theorem x_ack_yes_forces:
  "(x_ack_is_yes msg \<longrightarrow> ackp msg = 1)
   \<and> (msg_get msg ''x-ack'' = Some v \<and> caseless_eq v ''no'' \<and> precedence_is_bulk msg
        \<longrightarrow> ackp msg = 0)"
proof (intro conjI impI)
  assume "x_ack_is_yes msg"
  then show "ackp msg = 1" using ackp_zero_iff[of msg] ackp_range[of msg] by blast
next
  assume a: "msg_get msg ''x-ack'' = Some v \<and> caseless_eq v ''no'' \<and> precedence_is_bulk msg"
  then have "length v = 2" by (auto simp: caseless_eq_def dest: list_all2_lengthD)
  then have "\<not> caseless_eq v ''yes''" by (auto simp: caseless_eq_def dest: list_all2_lengthD)
  with a show "ackp msg = 0" by (simp add: ackp_zero_iff x_ack_is_yes_def)
qed

theorem x_ack_yes_forces_witness:
  "x_ack_is_yes bulk_yes_msg \<and> ackp bulk_yes_msg = 1
   \<and> msg_get bulk_no_msg ''x-ack'' = Some ''no'' \<and> caseless_eq ''no'' ''no''
   \<and> precedence_is_bulk bulk_no_msg \<and> ackp bulk_no_msg = 0"
proof -
  have y: "x_ack_is_yes bulk_yes_msg" by code_simp
  have n: "msg_get bulk_no_msg ''x-ack'' = Some ''no'' \<and> caseless_eq ''no'' ''no''
     \<and> precedence_is_bulk bulk_no_msg" by code_simp
  show ?thesis
    using y n x_ack_yes_forces[of bulk_yes_msg "''no''"] x_ack_yes_forces[of bulk_no_msg "''no''"]
    by blast
qed

text \<open>
  C5 as the specification states it fails: with \<open>X-Ack: no\<close> and \<open>Precedence:
  bulk\<close> the result is 0, and the notice to the poster is not sent although the
  other three conditions hold.
\<close>

theorem x_ack_no_counterexample:
  "msg_get bulk_no_msg ''x-ack'' = Some ''no''
   \<and> msg_get bulk_no_msg ''precedence'' = Some ''bulk''
   \<and> ackp bulk_no_msg = 0
   \<and> \<not> truthy (dict_get (msgdata demo_state) ''fromusenet'' PNone)
   \<and> respond_to_post_requests demo_list
   \<and> autorespond_to_sender demo_env demo_list
        (effective_sender demo_env bulk_no_msg (msgdata demo_state))
        (response_language demo_list (effective_sender demo_env bulk_no_msg (msgdata demo_state)))
   \<and> sender_notices (emitted demo_state
        (fst (hold_for_approval demo_env demo_list bulk_no_msg demo_state (Class ModeratedPost))))
       = []"
  by code_simp




text \<open>
  C7, as amended.  \<open>hold_for_approval\<close> never returns normally, and no run logs
  more than one line.  When the reason is an instance, or a class that can be
  instantiated without arguments, and neither \<open>hold_message\<close> nor the pending
  store nor \<open>send\<close> fails, the run ends by raising the instance; it has logged
  exactly one line, whose arguments are the list name, the sender, the
  message-id and the reason, and that line is its last effect, whichever notices
  were sent.
\<close>

theorem hold_raises:
  "snd (hold_for_approval env mlist msg s exc) \<noteq> Returned
   \<and> length (log_lines (emitted s (fst (hold_for_approval env mlist msg s exc)))) \<le> 1
   \<and> (normalize_exc exc = Inr e \<and> collaborators_succeed env mlist msg s e
      \<longrightarrow> snd (hold_for_approval env mlist msg s exc) = Raised (HoldMessage e)
        \<and> log_lines (emitted s (fst (hold_for_approval env mlist msg s exc)))
            = [(''%s post from %s held, message-id=%s: %s'',
                [PStr (list_name mlist),
                 (case msgdata s ''sender'' of
                    Some v \<Rightarrow> v
                  | None \<Rightarrow> PStr (get_sender env msg None)),
                 PStr (case msg_get msg ''message-id'' of Some v \<Rightarrow> v | None \<Rightarrow> ''n/a''),
                 PStr (wrap env (reason_notice env (language s) e))])]
        \<and> last (emitted s (fst (hold_for_approval env mlist msg s exc)))
            = Log_info
                (''%s post from %s held, message-id=%s: %s'',
                 [PStr (list_name mlist),
                  (case msgdata s ''sender'' of
                     Some v \<Rightarrow> v
                   | None \<Rightarrow> PStr (get_sender env msg None)),
                  PStr (case msg_get msg ''message-id'' of Some v \<Rightarrow> v | None \<Rightarrow> ''n/a''),
                  PStr (wrap env (reason_notice env (language s) e))]))"
proof (intro conjI impI)
  show "snd (hold_for_approval env mlist msg s exc) \<noteq> Returned"
    by (rule hold_for_approval_not_returned)
next
  show "length (log_lines (emitted s (fst (hold_for_approval env mlist msg s exc)))) \<le> 1"
    using log_only_at_end[of s env mlist msg exc] by blast
next
  assume a: "normalize_exc exc = Inr e \<and> collaborators_succeed env mlist msg s e"
  then show r: "snd (hold_for_approval env mlist msg s exc) = Raised (HoldMessage e)"
    by (simp add: collaborators_complete)
  from r obtain held_id token where
    em: "emitted s (fst (hold_for_approval env mlist msg s exc))
       = held_effects env mlist msg s e held_id token"
    by (rule held_emitted)
  show "log_lines (emitted s (fst (hold_for_approval env mlist msg s exc)))
            = [(''%s post from %s held, message-id=%s: %s'',
                [PStr (list_name mlist),
                 (case msgdata s ''sender'' of
                    Some v \<Rightarrow> v
                  | None \<Rightarrow> PStr (get_sender env msg None)),
                 PStr (case msg_get msg ''message-id'' of Some v \<Rightarrow> v | None \<Rightarrow> ''n/a''),
                 PStr (wrap env (reason_notice env (language s) e))])]"
    by (simp add: em held_effects_def Let_def log_line_def effective_sender_def dict_get_def
        msg_get_default_def)
  show "last (emitted s (fst (hold_for_approval env mlist msg s exc)))
            = Log_info
                (''%s post from %s held, message-id=%s: %s'',
                 [PStr (list_name mlist),
                  (case msgdata s ''sender'' of
                     Some v \<Rightarrow> v
                   | None \<Rightarrow> PStr (get_sender env msg None)),
                  PStr (case msg_get msg ''message-id'' of Some v \<Rightarrow> v | None \<Rightarrow> ''n/a''),
                  PStr (wrap env (reason_notice env (language s) e))])"
    by (simp add: em held_effects_def Let_def log_line_def effective_sender_def dict_get_def
        msg_get_default_def)
qed

theorem hold_raises_witness:
  "normalize_exc (Instance (MessageTooBig_inst 50000 40)) = Inr (MessageTooBig_inst 50000 40)
   \<and> collaborators_succeed demo_env demo_list demo_msg demo_state (MessageTooBig_inst 50000 40)
   \<and> snd (hold_for_approval demo_env demo_list demo_msg demo_state
          (Instance (MessageTooBig_inst 50000 40)))
       = Raised (HoldMessage (MessageTooBig_inst 50000 40))
   \<and> log_lines (emitted demo_state (fst (hold_for_approval demo_env demo_list demo_msg
          demo_state (Instance (MessageTooBig_inst 50000 40)))))
       = [(''%s post from %s held, message-id=%s: %s'',
           [PStr ''test'', PStr ''alice@example.com'', PStr ''<m1@example.com>'',
            PStr ''Message body is too big: $size bytes with a limit of\<newline>$limit KB''])]"
proof -
  have c: "log_lines (emitted demo_state (fst (hold_for_approval demo_env demo_list demo_msg
          demo_state (Instance (MessageTooBig_inst 50000 40)))))
       = [(''%s post from %s held, message-id=%s: %s'',
           [PStr ''test'', PStr ''alice@example.com'', PStr ''<m1@example.com>'',
            PStr ''Message body is too big: $size bytes with a limit of\<newline>$limit KB''])]"
    by code_simp
  show ?thesis
    using too_big_succeeds c
      hold_raises[of demo_env demo_list demo_msg demo_state
        "Instance (MessageTooBig_inst 50000 40)" "MessageTooBig_inst 50000 40"]
    by blast
qed

text \<open>
  C7 as the specification states it fails: handed the class \<open>MessageTooBig\<close>,
  whose constructor needs the size and the limit, \<open>hold_for_approval\<close> ends with
  the \<open>TypeError\<close> of \<open>exc()\<close>; no collaborator has failed, no line is logged and
  no hold reason is raised.
\<close>

theorem hold_raises_counterexample:
  "snd (hold_for_approval demo_env demo_list demo_msg demo_state (Class MessageTooBig))
     = Raised TypeError
   \<and> \<not> collaborator_failed
         (snd (hold_for_approval demo_env demo_list demo_msg demo_state (Class MessageTooBig)))
   \<and> length (log_lines (emitted demo_state
        (fst (hold_for_approval demo_env demo_list demo_msg demo_state
           (Class MessageTooBig))))) = 0"
  by code_simp

text \<open>
  C8.  The claim, which is also what the comment at lines 215 to 217 of
  \<open>Hold.py\<close> says, does not hold of the code at this input: the poster is not a
  member of the list, the list's preferred language is \<open>en\<close>, and the metadata
  has \<open>lang = fr\<close>.  Line 225 replaces the language by the metadata's, so the
  notice is built for \<open>fr\<close> and its body is rendered in \<open>fr\<close>, while its Subject
  has been translated in the language that was active, \<open>en\<close>.
\<close>

theorem lang_override_run:
  "get_member demo_list (effective_sender tagging_env demo_msg (msgdata french_state)) = None
   \<and> preferred_language demo_list = ''en''
   \<and> language french_state = ''en''
   \<and> msgdata french_state ''lang'' = Some (PStr ''fr'')
   \<and> map n_lang (sender_notices (emitted french_state
        (fst (hold_for_approval tagging_env demo_list demo_msg french_state
           (Class ModeratedPost)))))
       = [PStr ''fr'']
   \<and> map rendered_language (sender_notices (emitted french_state
        (fst (hold_for_approval tagging_env demo_list demo_msg french_state
           (Class ModeratedPost)))))
       = [Some (PStr ''fr'')]
   \<and> map n_subject (sender_notices (emitted french_state
        (fst (hold_for_approval tagging_env demo_list demo_msg french_state
           (Class ModeratedPost)))))
       = [''en: Your message to $listname awaits moderator approval'']"
  by code_simp

text \<open>
  C9, as amended.  When the form gives \<open>topics_enabled\<close> and
  \<open>topics_bodylines_limit\<close> at most once each, \<open>HandleForm\<close> returns normally; a
  value of either field that \<open>int()\<close> rejects with \<open>ValueError\<close> is swallowed and
  the list keeps the value that the attribute had.
\<close>

theorem handleform_swallows:
  assumes "single_valued cgidata ''topics_enabled''"
    and "single_valued cgidata ''topics_bodylines_limit''"
  shows "\<exists>mlist'. HandleForm int_of_str mlist cgidata = Inr mlist'
     \<and> (\<forall>s. getvalue cgidata ''topics_enabled'' = Some (Str s) \<and> int_of_str s = None
           \<longrightarrow> topics_enabled mlist' = topics_enabled mlist)
     \<and> (\<forall>s. getvalue cgidata ''topics_bodylines_limit'' = Some (Str s) \<and> int_of_str s = None
           \<longrightarrow> topics_bodylines_limit mlist' = topics_bodylines_limit mlist)"
proof -
  let ?m0 = "mlist\<lparr>topics := topics_loop cgidata 1 []\<rparr>"
  from set_topics_enabled_single[OF assms(1), of int_of_str ?m0] obtain m1 where
    m1: "set_topics_enabled int_of_str cgidata ?m0 = Inr m1"
      "topics_bodylines_limit m1 = topics_bodylines_limit ?m0"
      "\<forall>s. getvalue cgidata ''topics_enabled'' = Some (Str s) \<and> int_of_str s = None
           \<longrightarrow> topics_enabled m1 = topics_enabled ?m0"
    by blast
  from set_topics_bodylines_limit_single[OF assms(2), of int_of_str m1] obtain m2 where
    m2: "set_topics_bodylines_limit int_of_str cgidata m1 = Inr m2"
      "topics_enabled m2 = topics_enabled m1"
      "\<forall>s. getvalue cgidata ''topics_bodylines_limit'' = Some (Str s) \<and> int_of_str s = None
           \<longrightarrow> topics_bodylines_limit m2 = topics_bodylines_limit m1"
    by blast
  have "HandleForm int_of_str mlist cgidata = Inr m2"
    using m1(1) m2(1) by (simp add: HandleForm_def Let_def)
  with m1 m2 show ?thesis by simp
qed

theorem handleform_swallows_witness:
  "single_valued demo_form ''topics_enabled''
   \<and> single_valued demo_form ''topics_bodylines_limit''
   \<and> getvalue demo_form ''topics_enabled'' = Some (Str ''abc'')
   \<and> demo_int ''abc'' = None
   \<and> (\<exists>mlist'. HandleForm demo_int demo_maillist demo_form = Inr mlist'
        \<and> topics_enabled mlist' = topics_enabled demo_maillist)"
  using demo_form_single handleform_swallows[of demo_form demo_int demo_maillist]
  by blast

text \<open>
  C9 as the specification states it fails: the form gives \<open>topics_enabled\<close> the
  value \<open>abc\<close>, which is no integer, and sends \<open>topics_bodylines_limit\<close> twice, so
  that \<open>getvalue\<close> returns a list for it; \<open>int()\<close> raises \<open>TypeError\<close> on the list,
  \<open>except ValueError\<close> does not catch it, and it leaves \<open>HandleForm\<close>.
\<close>

theorem handleform_counterexample:
  "getvalue repeated_form ''topics_enabled'' = Some (Str ''abc'')
   \<and> demo_int ''abc'' = None
   \<and> getvalue repeated_form ''topics_bodylines_limit'' = Some (Lst [''7'', ''8''])
   \<and> HandleForm demo_int demo_maillist repeated_form = Inl TypeError"
  by code_simp

text \<open>
  C10.  \<open>ackp\<close> gives the same result on a message and on the same message with
  the values of its X-Ack and Precedence headers put in lower case.
\<close>

theorem ackp_case_invariant: "ackp (lower_ack_precedence msg) = ackp msg"
  unfolding ackp_def msg_get_default_lowered ..

end
